theory Spec2Isabelle
  imports Complex_Main
begin

section \<open>The client-side cart\<close>

text \<open>
  The cart of the front-end script is an object \<open>cart\<close> with a field \<open>items\<close> (an array
  of line objects) and the methods \<open>load\<close>, \<open>save\<close>, \<open>add\<close>, \<open>inc\<close>, \<open>dec\<close>,
  \<open>remove\<close>, \<open>clear\<close>, \<open>total\<close> and \<open>updateUI\<close>.

  A product, as the click handler of a product card builds it, is
  \<open>{ id, name, price, img, variant }\<close>; a line is \<open>{ key, ...product, qty }\<close>, so the
  record of a line extends the record of a product. The field \<open>id\<close> is named
  \<open>prod_id\<close> here, since \<open>id\<close> is the identity function of HOL. A variant may be
  missing (\<open>undefined\<close>, \<open>None\<close>) or a string, possibly the empty one.

  A quantity is an \<open>int\<close>: quantities are whole numbers that change by one. A price is
  a \<open>number\<close>, the IEEE double that \<open>parseFloat\<close> read from the product card.
\<close>

subsection \<open>Numbers\<close>

text \<open>
  A JavaScript number is \<open>NaN\<close>, an infinity or a finite double, given by its value.
  The sign of a zero is not represented. The result of an arithmetic operation on finite
  doubles is the exact result rounded to the nearest double, ties to the even significand:
  \<open>round_to_double\<close>. A double has a significand of 53 bits; the smallest quantum is
  \<open>2^-1074\<close>; a result that rounds to \<open>2^1024\<close> or beyond is an infinity.
\<close>

datatype number = NaN | PosInfinity | NegInfinity | Fin real

text \<open>The number of binary digits of a natural number.\<close>

fun bit_length :: "nat \<Rightarrow> nat" where
  "bit_length n = (if n = 0 then 0 else Suc (bit_length (n div 2)))"

declare bit_length.simps [simp del]

definition pow2 :: "int \<Rightarrow> real" where
  "pow2 k = (if 0 \<le> k then 2 ^ nat k else 1 / 2 ^ nat (- k))"

text \<open>The binary exponent of a positive real \<open>x\<close>: the \<open>e\<close> with \<open>2^e \<le> x < 2^(e+1)\<close>.\<close>

definition exponent :: "real \<Rightarrow> int" where
  "exponent x =
     (if 1 \<le> x then int (bit_length (nat \<lfloor>x\<rfloor>)) - 1
      else (let b = int (bit_length (nat \<lfloor>1 / x\<rfloor>))
            in if x * pow2 (b - 1) = 1 then 1 - b else - b))"

definition round_half_even :: "real \<Rightarrow> int" where
  "round_half_even y =
     (let f = \<lfloor>y\<rfloor>; d = y - of_int f
      in if d < 1 / 2 then f else if 1 / 2 < d then f + 1 else if even f then f else f + 1)"

definition round_to_double :: "real \<Rightarrow> number" where
  "round_to_double x =
     (if x = 0 then Fin 0
      else (let q = pow2 (max (exponent \<bar>x\<bar> - 52) (- 1074));
                r = of_int (round_half_even (x / q)) * q
            in if pow2 1024 \<le> \<bar>r\<bar> then (if 0 < x then PosInfinity else NegInfinity)
               else Fin r))"

definition is_negative :: "number \<Rightarrow> bool" where
  "is_negative x = (case x of NegInfinity \<Rightarrow> True | Fin a \<Rightarrow> a < 0 | _ \<Rightarrow> False)"

text \<open>
  \<open>x + y\<close> and \<open>x * y\<close> on numbers: \<open>NaN\<close> is absorbing, the infinities of opposite
  signs add up to \<open>NaN\<close>, and an infinity times zero is \<open>NaN\<close>.
\<close>

definition num_add :: "number \<Rightarrow> number \<Rightarrow> number" where
  "num_add x y =
     (case x of
        NaN \<Rightarrow> NaN
      | Fin a \<Rightarrow> (case y of Fin b \<Rightarrow> round_to_double (a + b) | _ \<Rightarrow> y)
      | _ \<Rightarrow> (if y = NaN then NaN
              else if y = PosInfinity \<and> x = NegInfinity then NaN
              else if y = NegInfinity \<and> x = PosInfinity then NaN
              else x))"

definition num_mul :: "number \<Rightarrow> number \<Rightarrow> number" where
  "num_mul x y =
     (if x = NaN \<or> y = NaN then NaN
      else (case (x, y) of
              (Fin a, Fin b) \<Rightarrow> round_to_double (a * b)
            | _ \<Rightarrow> (if x = Fin 0 \<or> y = Fin 0 then NaN
                     else if is_negative x \<noteq> is_negative y then NegInfinity
                     else PosInfinity)))"

text \<open>A quantity as a number, and the value of a finite number.\<close>

definition num_of_int :: "int \<Rightarrow> number" where
  "num_of_int n = round_to_double (of_int n)"

definition num_value :: "number \<Rightarrow> real" where
  "num_value x = (case x of Fin a \<Rightarrow> a | _ \<Rightarrow> 0)"

text \<open>A whole number: a finite number without a fractional part.\<close>

definition whole :: "number \<Rightarrow> bool" where
  "whole x = (case x of Fin a \<Rightarrow> a = of_int \<lfloor>a\<rfloor> | _ \<Rightarrow> False)"

subsection \<open>The cart and its operations\<close>

record product =
  prod_id :: string
  name :: string
  price :: number
  img :: string
  variant :: "string option"

record line = product +
  key :: string
  qty :: int

text \<open>
  The state: the array \<open>cart.items\<close>, and what \<open>localStorage\<close> holds under
  \<open>CART_KEY\<close>. \<open>save\<close> writes \<open>JSON.stringify(this.items)\<close>; the text written is
  represented by the array it serialises (\<open>None\<close>: nothing was written yet).
\<close>

record cart =
  items :: "line list"
  saved :: "line list option"

definition empty_cart :: cart where
  "empty_cart = \<lparr>items = [], saved = None\<rparr>"

text \<open>
  \<open>save(){ localStorage.setItem(CART_KEY, JSON.stringify(this.items)); this.updateUI(); }\<close>.
  The write to the storage is taken to succeed. \<open>updateUI\<close> reads the state and writes
  to the page, which is not part of this state.
\<close>

definition save :: "cart \<Rightarrow> cart" where
  "save c = c\<lparr>saved := Some (items c)\<rparr>"

text \<open>
  \<open>product.variant ? ':' + product.variant : ''\<close>: a missing variant and the empty string
  are both falsy.
\<close>

definition variant_suffix :: "string option \<Rightarrow> string" where
  "variant_suffix v = (case v of None \<Rightarrow> [] | Some s \<Rightarrow> (if s = [] then [] else CHR '':'' # s))"

definition line_key :: "'a product_scheme \<Rightarrow> string" where
  "line_key p = prod_id p @ variant_suffix (variant p)"

text \<open>\<open>{ key, ...product, qty: 1 }\<close>\<close>

definition new_line :: "product \<Rightarrow> line" where
  "new_line p = \<lparr>prod_id = prod_id p, name = name p, price = price p, img = img p,
     variant = variant p, key = line_key p, qty = 1\<rparr>"

text \<open>
  \<open>const it = this.items.find(i => i.key === key)\<close> yields a reference to the first line
  with that key, and \<open>it.qty++\<close> changes that line in place, inside the array:
  \<open>update_first\<close> is that assignment through the reference.
\<close>

fun update_first :: "('a \<Rightarrow> bool) \<Rightarrow> ('a \<Rightarrow> 'a) \<Rightarrow> 'a list \<Rightarrow> 'a list" where
  "update_first P f [] = []"
| "update_first P f (x # xs) = (if P x then f x # xs else x # update_first P f xs)"

definition add :: "product \<Rightarrow> cart \<Rightarrow> cart" where
  "add p c =
     (let k = line_key p in
      case find (\<lambda>i. key i = k) (items c) of
        Some found \<Rightarrow>
          save (c\<lparr>items := update_first (\<lambda>i. key i = k) (\<lambda>i. i\<lparr>qty := qty i + 1\<rparr>) (items c)\<rparr>)
      | None \<Rightarrow> save (c\<lparr>items := items c @ [new_line p]\<rparr>))"

definition inc :: "string \<Rightarrow> cart \<Rightarrow> cart" where
  "inc k c =
     (case find (\<lambda>i. key i = k) (items c) of
        Some it \<Rightarrow>
          save (c\<lparr>items := update_first (\<lambda>i. key i = k) (\<lambda>i. i\<lparr>qty := qty i + 1\<rparr>) (items c)\<rparr>)
      | None \<Rightarrow> c)"

definition remove :: "string \<Rightarrow> cart \<Rightarrow> cart" where
  "remove k c = save (c\<lparr>items := filter (\<lambda>i. key i \<noteq> k) (items c)\<rparr>)"

definition dec :: "string \<Rightarrow> cart \<Rightarrow> cart" where
  "dec k c =
     (case find (\<lambda>i. key i = k) (items c) of
        Some it \<Rightarrow>
          (if qty it > 1
           then save (c\<lparr>items := update_first (\<lambda>i. key i = k) (\<lambda>i. i\<lparr>qty := qty i - 1\<rparr>) (items c)\<rparr>)
           else remove k c)
      | None \<Rightarrow> remove k c)"

definition clear :: "cart \<Rightarrow> cart" where
  "clear c = save (c\<lparr>items := []\<rparr>)"

text \<open>\<open>total(){ return this.items.reduce((s,i) => s + i.price*i.qty, 0); }\<close>\<close>

definition total :: "cart \<Rightarrow> number" where
  "total c = foldl (\<lambda>s i. num_add s (num_mul (price i) (num_of_int (qty i)))) (Fin 0) (items c)"

text \<open>The operations a user can trigger, and a run of them from a given state.\<close>

datatype cart_op = Add product | Inc string | Dec string | Remove string | Clear

fun apply_op :: "cart_op \<Rightarrow> cart \<Rightarrow> cart" where
  "apply_op (Add p) c = add p c"
| "apply_op (Inc k) c = inc k c"
| "apply_op (Dec k) c = dec k c"
| "apply_op (Remove k) c = remove k c"
| "apply_op Clear c = clear c"

fun run :: "cart_op list \<Rightarrow> cart \<Rightarrow> cart" where
  "run [] c = c"
| "run (x # xs) c = run xs (apply_op x c)"

text \<open>The index of the first line with a given key (the length of the array if there is none).\<close>

definition first_index :: "string \<Rightarrow> line list \<Rightarrow> nat" where
  "first_index k xs = length (takeWhile (\<lambda>i. key i \<noteq> k) xs)"


subsection \<open>Loading the persisted cart\<close>

text \<open>
  \<open>load\<close> reads the text stored under \<open>CART_KEY\<close>, so what it assigns to \<open>cart.items\<close>
  is whatever value \<open>JSON.parse\<close> returns: any JSON value, not only an array of lines.

  \<open>load(){ try{ this.items = JSON.parse(localStorage.getItem(CART_KEY) || '[]'); }
  catch{ this.items = []; } this.updateUI(); }\<close>
\<close>

datatype json =
  JNull | JBool bool | JNum real | JStr string | JArr "json list" | JObj "(string \<times> json) list"

datatype js_error = SyntaxError | TypeError

text \<open>
  \<open>updateUI\<close> starts with \<open>this.items.reduce((s,i) => s + i.qty, 0)\<close>. On a value that is
  not an array this raises a \<open>TypeError\<close> (\<open>null\<close> has no properties; a boolean, number,
  string or object of JSON has no function \<open>reduce\<close>). On the empty array no callback
  runs, the count is \<open>0\<close>, the empty-state message is shown and the total is \<open>0\<close>: nothing
  raises. What the rendering of a non-empty array does depends on its elements and on the
  page; it is the parameter \<open>render\<close> (\<open>None\<close>: it returns normally).
\<close>

definition updateUI :: "(json list \<Rightarrow> js_error option) \<Rightarrow> json \<Rightarrow> js_error option" where
  "updateUI render its =
     (case its of
        JArr xs \<Rightarrow> (if xs = [] then None else render xs)
      | _ \<Rightarrow> Some TypeError)"

text \<open>
  \<open>JSON.parse\<close> is the parameter \<open>parse\<close> (\<open>None\<close>: it throws). \<open>stored\<close> is what
  \<open>localStorage.getItem(CART_KEY)\<close> returns (\<open>None\<close> for \<open>null\<close>); \<open>null\<close> and the empty
  string are falsy, so \<open>'[]'\<close> is parsed in their place. The result is the value of
  \<open>cart.items\<close> after the call and the exception \<open>load\<close> throws to its caller, if any:
  the call of \<open>updateUI\<close> is outside the \<open>try\<close> block.
\<close>

definition load :: "(string \<Rightarrow> json option) \<Rightarrow> (json list \<Rightarrow> js_error option) \<Rightarrow> string option
    \<Rightarrow> json \<times> js_error option" where
  "load parse render stored =
     (let text = (case stored of None \<Rightarrow> ''[]'' | Some s \<Rightarrow> if s = [] then ''[]'' else s);
          its = (case parse text of None \<Rightarrow> JArr [] | Some v \<Rightarrow> v)
      in (its, updateUI render its))"

text \<open>
  A fragment of \<open>JSON.parse\<close>, to run \<open>load\<close> on concrete texts: the text \<open>null\<close> is
  the value \<open>null\<close> and the text \<open>[]\<close> is the empty array, as in JavaScript. Every other
  text is refused, which is what \<open>JSON.parse\<close> does on a text that is not JSON, such as
  \<open>{oops\<close>; the fragment is used on these three texts only.
\<close>

definition parse_sample :: "string \<Rightarrow> json option" where
  "parse_sample s =
     (if s = ''null'' then Some JNull else if s = ''[]'' then Some (JArr []) else None)"

subsection \<open>Checkout by email\<close>

text \<open>
  The click handler of \<open>#checkoutEmail\<close>. Its effects are a call of \<open>alert\<close> or an
  assignment to \<open>window.location.href\<close>; it assigns nothing to the cart. Strings are byte
  lists, the non-ASCII characters of the source in UTF-8. The currency formatting
  \<open>toLocaleString('fr-FR', { style:'currency', currency:'EUR' })\<close> of a number belongs to
  the platform and is the parameter \<open>eur\<close>.
\<close>

datatype effect = Alert string | Navigate string

text \<open>\<open>Array.prototype.join\<close> on strings.\<close>

fun join :: "string \<Rightarrow> string list \<Rightarrow> string" where
  "join sep [] = []"
| "join sep [x] = x"
| "join sep (x # y # ys) = x @ sep @ join sep (y # ys)"

text \<open>The decimal text of an integer, as a template literal renders a quantity.\<close>

fun digits :: "nat \<Rightarrow> string" where
  "digits n =
     (if n < 10 then [''0123456789'' ! n] else digits (n div 10) @ [''0123456789'' ! (n mod 10)])"

declare digits.simps [simp del]

definition show_int :: "int \<Rightarrow> string" where
  "show_int n = (if n < 0 then CHR ''-'' # digits (nat (- n)) else digits (nat n))"

definition em_dash :: string where
  "em_dash = [CHR 0xE2, CHR 0x80, CHR 0x94]"

definition e_acute :: string where
  "e_acute = [CHR 0xC3, CHR 0xA9]"

text \<open>\<open>i.variant ? ' (' + i.variant + ')' : ''\<close>\<close>

definition variant_label :: "string option \<Rightarrow> string" where
  "variant_label v =
     (case v of None \<Rightarrow> [] | Some s \<Rightarrow> (if s = [] then [] else '' ('' @ s @ '')''))"

definition line_text :: "(number \<Rightarrow> string) \<Rightarrow> line \<Rightarrow> string" where
  "line_text eur i =
     ''- '' @ name i @ variant_label (variant i) @ '' x'' @ show_int (qty i)
       @ '' '' @ em_dash @ '' '' @ eur (num_mul (price i) (num_of_int (qty i)))"

definition body_intro :: string where
  "body_intro = ''Bonjour,%0D%0A%0D%0AJe souhaite commander les articles suivants :%0D%0A''"

definition body_outro :: string where
  "body_outro =
     ''%0D%0A%0D%0ANom : %0D%0AAdresse de livraison : %0D%0AT'' @ e_acute @ ''l'' @ e_acute
       @ ''phone : %0D%0AMode de paiement pr'' @ e_acute @ ''f'' @ e_acute @ ''r'' @ e_acute
       @ '' : %0D%0A%0D%0AMerci !''"

definition mailto_prefix :: string where
  "mailto_prefix = ''mailto:contact@pacs-simpa.org?subject=Commande%20Shop%20Solidaire&body=''"

definition mail_body :: "(number \<Rightarrow> string) \<Rightarrow> cart \<Rightarrow> string" where
  "mail_body eur c =
     body_intro @ join ''%0D%0A'' (map (line_text eur) (items c))
       @ ''%0D%0A%0D%0ATotal : '' @ eur (total c) @ body_outro"

definition checkoutEmail :: "(number \<Rightarrow> string) \<Rightarrow> cart \<Rightarrow> effect list \<times> cart" where
  "checkoutEmail eur c =
     (if length (items c) = 0 then ([Alert ''Votre panier est vide.''], c)
      else ([Navigate (mailto_prefix @ mail_body eur c)], c))"

subsection \<open>Sample data\<close>

definition tshirt :: product where
  "tshirt =
     \<lparr>prod_id = ''p1'', name = ''T-shirt'', price = Fin 20, img = ''t.png'', variant = None\<rparr>"

text \<open>
  A product of ten cents: its price is the double nearest to \<open>0.1\<close>, which is what
  \<open>parseFloat('0.1')\<close> yields.
\<close>

definition coin :: product where
  "coin =
     \<lparr>prod_id = ''c1'', name = ''Coin'', price = Fin (3602879701896397 / 36028797018963968),
      img = ''c.png'', variant = None\<rparr>"

text \<open>
  A stand-in for the currency formatter of the platform, to run the checkout on concrete
  carts: it shows the whole part of a finite amount between angle brackets.
\<close>

definition eur_sample :: "number \<Rightarrow> string" where
  "eur_sample x = (case x of Fin a \<Rightarrow> ''<'' @ show_int \<lfloor>a\<rfloor> @ ''>'' | _ \<Rightarrow> ''<NaN>'')"

text \<open>The invariant of the cart: every line has a quantity of at least one.\<close>

definition qty_ok :: "line list \<Rightarrow> bool" where
  "qty_ok xs = list_all (\<lambda>i. 1 \<le> qty i) xs"

section \<open>The two servers\<close>

text \<open>
  The repository holds two servers with the same pages. \<open>server.js\<close> stores its data in
  SQLite and keeps the logged-in user, with the name of the role, in the session. The other
  one (the second file of \<open>src/unnamed/part_000\<close>) stores its data in PostgreSQL and keeps
  only the id of the logged-in user in the session.

  The database is outside the model. A table is the list of its rows, in the order of
  insertion, and only the tables and columns the handlers below write are kept. Whether
  the statements of a request succeed is the parameter \<open>db_ok\<close> of its handler. A response
  is a redirect, a status with a message (the message is left out) or a rendered view.
\<close>

datatype response = Redirect string | Status nat | Render string

datatype http_method = GET | POST

text \<open>
  Of a request, the session (\<open>req.session.user\<close> in \<open>server.js\<close>, \<open>req.session.userId\<close>
  in the other server) and the fields of the parsed body; a field that was not sent is
  \<open>undefined\<close> (\<open>None\<close>).
\<close>

record 's request =
  session :: 's
  body :: "string \<Rightarrow> string option"

text \<open>\<open>!x\<close> on a field: \<open>undefined\<close> and the empty string are falsy. \<open>x || null\<close>.\<close>

definition falsy :: "string option \<Rightarrow> bool" where
  "falsy v = (case v of None \<Rightarrow> True | Some s \<Rightarrow> s = [])"

definition or_null :: "string option \<Rightarrow> string option" where
  "or_null v = (if falsy v then None else v)"

definition text_of :: "string option \<Rightarrow> string" where
  "text_of v = (case v of None \<Rightarrow> [] | Some s \<Rightarrow> s)"

subsection \<open>\<open>server.js\<close>: tables and seeding\<close>

record user_row =
  user_id :: nat
  username :: string
  password :: string
  role_id :: nat

record registration =
  reg_event_id :: string
  reg_name :: string
  reg_email :: string
  reg_phone :: "string option"

record event_row =
  ev_title :: string
  ev_description :: "string option"
  ev_date :: string
  ev_start_time :: string
  ev_end_time :: "string option"
  ev_location :: string
  ev_cost :: "string option"
  ev_capacity :: "string option"

record volunteer_row =
  vol_name :: string
  vol_position :: string
  vol_bio :: "string option"
  vol_photo :: "string option"

record store =
  roles :: "(nat \<times> string) list"
  users :: "user_row list"
  events :: "event_row list"
  volunteers :: "volunteer_row list"
  registrations :: "registration list"

definition fresh_store :: store where
  "fresh_store = \<lparr>roles = [], users = [], events = [], volunteers = [], registrations = []\<rparr>"

text \<open>The next value of a serial id column: one more than the largest id in use.\<close>

definition next_id :: "nat list \<Rightarrow> nat" where
  "next_id ids = Suc (fold max ids 0)"

definition seeded_roles :: "(nat \<times> string) list" where
  "seeded_roles = [(1, ''admin''), (2, ''staff''), (3, ''volunteer'')]"

text \<open>
  \<open>db.get('SELECT COUNT(*) AS cnt FROM roles', (err, row) => { if (row && row.cnt === 0)
  { ... stmt.run('admin', 'staff', 'volunteer'); } })\<close>
\<close>

definition seed_roles :: "store \<Rightarrow> store" where
  "seed_roles st = (if length (roles st) = 0 then st\<lparr>roles := seeded_roles\<rparr> else st)"

text \<open>
  The seeding of the default admin: if the table of users is empty, \<open>bcrypt.hash\<close> is
  called; \<open>hash\<close> is its result, \<open>None\<close> when it reports an error (\<open>errHash\<close>), and then
  nothing is inserted and nothing is written to the console. Otherwise the id of the role
  \<open>admin\<close> is looked up (\<open>roleRow ? roleRow.id : 1\<close>) and the user is inserted.
\<close>

definition seed_admin :: "string option \<Rightarrow> store \<Rightarrow> store" where
  "seed_admin hash st =
     (if length (users st) = 0 then
        (case hash of
           None \<Rightarrow> st
         | Some h \<Rightarrow>
             (let roleId = (case find (\<lambda>r. snd r = ''admin'') (roles st) of
                              Some roleRow \<Rightarrow> fst roleRow | None \<Rightarrow> 1)
              in st\<lparr>users := users st @
                   [\<lparr>user_id = next_id (map user_id (users st)), username = ''admin'',
                     password = h, role_id = roleId\<rparr>]\<rparr>))
      else st)"

text \<open>
  The role seeding and the admin seeding of the start of \<open>server.js\<close>, and the lines
  they write to the console: none, since no statement of the two logs anything. There is
  no transaction around them.
\<close>

definition bootstrap :: "string option \<Rightarrow> store \<Rightarrow> store \<times> string list" where
  "bootstrap hash st = (seed_admin hash (seed_roles st), [])"

subsection \<open>\<open>server.js\<close>: handlers\<close>

text \<open>
  \<open>function requireAdmin(req, res, next) { if (!req.session.user ||
  req.session.user.role !== 'admin') { return res.redirect('/login'); } next(); }\<close>.
  The rest of the route, \<open>next\<close>, is a parameter: it runs only in the last branch.
\<close>

record session_user =
  su_id :: nat
  su_username :: string
  su_role :: string

definition requireAdmin ::
  "session_user option \<Rightarrow> ('a \<Rightarrow> response \<times> 'a) \<Rightarrow> 'a \<Rightarrow> response \<times> 'a" where
  "requireAdmin u next st =
     (case u of
        None \<Rightarrow> (Redirect ''/login'', st)
      | Some usr \<Rightarrow> (if su_role usr \<noteq> ''admin'' then (Redirect ''/login'', st) else next st))"

text \<open>\<open>app.post('/events/register', ...)\<close>\<close>

definition events_register :: "bool \<Rightarrow> 's request \<Rightarrow> store \<Rightarrow> response \<times> store" where
  "events_register db_ok req st =
     (let event_id = body req ''event_id''; nm = body req ''name'';
          email = body req ''email''; phone = body req ''phone''
      in if falsy event_id \<or> falsy nm \<or> falsy email then (Status 400, st)
         else if \<not> db_ok then (Status 500, st)
         else (Redirect ''/?success=1'',
               st\<lparr>registrations := registrations st @
                 [\<lparr>reg_event_id = text_of event_id, reg_name = text_of nm,
                   reg_email = text_of email, reg_phone = or_null phone\<rparr>]\<rparr>))"

text \<open>
  The handlers behind \<open>requireAdmin\<close>: the dashboard (five queries, then the view
  \<open>admin\<close>), the creation of an event and the creation of a volunteer.
\<close>

definition admin_dashboard :: "bool \<Rightarrow> store \<Rightarrow> response \<times> store" where
  "admin_dashboard db_ok st = (if db_ok then (Render ''admin'', st) else (Status 500, st))"

definition admin_events_add :: "bool \<Rightarrow> 's request \<Rightarrow> store \<Rightarrow> response \<times> store" where
  "admin_events_add db_ok req st =
     (let title = body req ''title''; date = body req ''date'';
          start_time = body req ''start_time''; location = body req ''location''
      in if falsy title \<or> falsy date \<or> falsy start_time \<or> falsy location then (Status 400, st)
         else if \<not> db_ok then (Status 500, st)
         else (Redirect ''/admin'',
               st\<lparr>events := events st @
                 [\<lparr>ev_title = text_of title, ev_description = or_null (body req ''description''),
                   ev_date = text_of date, ev_start_time = text_of start_time,
                   ev_end_time = or_null (body req ''end_time''), ev_location = text_of location,
                   ev_cost = or_null (body req ''cost''),
                   ev_capacity = or_null (body req ''capacity'')\<rparr>]\<rparr>))"

definition admin_volunteers_add :: "bool \<Rightarrow> 's request \<Rightarrow> store \<Rightarrow> response \<times> store" where
  "admin_volunteers_add db_ok req st =
     (let nm = body req ''name''; position = body req ''position''
      in if falsy nm \<or> falsy position then (Status 400, st)
         else if \<not> db_ok then (Status 500, st)
         else (Redirect ''/admin'',
               st\<lparr>volunteers := volunteers st @
                 [\<lparr>vol_name = text_of nm, vol_position = text_of position,
                   vol_bio = or_null (body req ''bio''),
                   vol_photo = or_null (body req ''photo'')\<rparr>]\<rparr>))"

text \<open>
  The routes of \<open>server.js\<close> that are modelled, by method and registered path, and the
  handler chain of each (\<open>app.get('/admin', requireAdmin, ...)\<close>).
\<close>

datatype route = EventsRegister | AdminDashboard | AdminEventsAdd | AdminVolunteersAdd

definition route_of :: "http_method \<Rightarrow> string \<Rightarrow> route option" where
  "route_of m p =
     (if m = POST \<and> p = ''/events/register'' then Some EventsRegister
      else if m = GET \<and> p = ''/admin'' then Some AdminDashboard
      else if m = POST \<and> p = ''/admin/events/add'' then Some AdminEventsAdd
      else if m = POST \<and> p = ''/admin/volunteers/add'' then Some AdminVolunteersAdd
      else None)"

definition serve ::
  "bool \<Rightarrow> route \<Rightarrow> session_user option request \<Rightarrow> store \<Rightarrow> response \<times> store" where
  "serve db_ok r req st =
     (case r of
        EventsRegister \<Rightarrow> events_register db_ok req st
      | AdminDashboard \<Rightarrow> requireAdmin (session req) (admin_dashboard db_ok) st
      | AdminEventsAdd \<Rightarrow> requireAdmin (session req) (admin_events_add db_ok req) st
      | AdminVolunteersAdd \<Rightarrow> requireAdmin (session req) (admin_volunteers_add db_ok req) st)"

subsection \<open>The PostgreSQL server: tables and seeding\<close>

record pg_registration =
  pg_reg_event_id :: "int option"
  pg_reg_name :: "string option"
  pg_reg_email :: "string option"

record pg_event =
  pg_ev_title :: "string option"
  pg_ev_description :: "string option"
  pg_ev_date :: "string option"
  pg_ev_time :: "string option"
  pg_ev_location :: "string option"

record pg_volunteer =
  pg_vol_name :: "string option"
  pg_vol_role :: "string option"
  pg_vol_bio :: "string option"

record pg_store =
  pg_roles :: "(nat \<times> string) list"
  pg_users :: "user_row list"
  pg_events :: "pg_event list"
  pg_volunteers :: "pg_volunteer list"
  pg_registrations :: "pg_registration list"

definition pg_fresh_store :: pg_store where
  "pg_fresh_store =
     \<lparr>pg_roles = [], pg_users = [], pg_events = [], pg_volunteers = [], pg_registrations = []\<rparr>"

text \<open>
  \<open>ensureAdmin\<close> runs its statements between \<open>BEGIN\<close> and \<open>COMMIT\<close>, inside \<open>try\<close>; the
  \<open>catch\<close> block sends \<open>ROLLBACK\<close> and logs the error. Each awaited step may throw: \<open>fails\<close>
  tells which ones do. \<open>hashed\<close> is the result of \<open>bcrypt.hash\<close>. \<open>roleRes.rows[0].id\<close>
  throws when there is no role \<open>admin\<close>. The transaction itself is PostgreSQL's: what was
  written after \<open>BEGIN\<close> is in the store only once \<open>COMMIT\<close> has succeeded, so
  \<open>seed_transaction\<close> yields the store to commit, or \<open>None\<close> when a step threw.
\<close>

datatype step =
  Connect | Begin | CreateTables | CountRoles | InsertRoles | SelectAdmin | Hash | SelectRole
  | InsertUser | Commit | Rollback

definition seed_transaction :: "(step \<Rightarrow> bool) \<Rightarrow> string \<Rightarrow> pg_store \<Rightarrow> pg_store option" where
  "seed_transaction fails hashed st =
     (if fails Begin \<or> fails CreateTables \<or> fails CountRoles then None
      else if length (pg_roles st) = 0 \<and> fails InsertRoles then None
      else
        (let st1 = (if length (pg_roles st) = 0 then st\<lparr>pg_roles := seeded_roles\<rparr> else st)
         in if fails SelectAdmin then None
            else if length (filter (\<lambda>u. username u = ''admin'') (pg_users st1)) = 0 then
              (if fails Hash \<or> fails SelectRole then None
               else
                 (case find (\<lambda>r. snd r = ''admin'') (pg_roles st1) of
                    None \<Rightarrow> None
                  | Some roleRow \<Rightarrow>
                      (if fails InsertUser \<or> fails Commit then None
                       else Some (st1\<lparr>pg_users := pg_users st1 @
                              [\<lparr>user_id = next_id (map user_id (pg_users st1)),
                                username = ''admin'', password = hashed,
                                role_id = fst roleRow\<rparr>]\<rparr>))))
            else (if fails Commit then None else Some st1)))"

text \<open>
  The store and the lines written to the console after \<open>ensureAdmin().catch(...)\<close>.
  \<open>pool.connect()\<close> is outside the \<open>try\<close>, and an error thrown by \<open>ROLLBACK\<close> leaves the
  \<open>catch\<close> block: both reach the \<open>catch\<close> of the caller, which logs them.
\<close>

definition ensureAdmin :: "(step \<Rightarrow> bool) \<Rightarrow> string \<Rightarrow> pg_store \<Rightarrow> pg_store \<times> string list" where
  "ensureAdmin fails hashed st =
     (if fails Connect then (st, [''Failed to ensure admin user:''])
      else
        (case seed_transaction fails hashed st of
           Some st' \<Rightarrow> (st', [])
         | None \<Rightarrow>
             (if fails Rollback then (st, [''Failed to ensure admin user:''])
              else (st, [''Error ensuring admin:'']))))"

subsection \<open>The PostgreSQL server: handlers\<close>

text \<open>
  \<open>function isAuthenticated(req, res, next) { if (req.session.userId) { return next(); }
  res.redirect('/login'); }\<close>
\<close>

definition isAuthenticated ::
  "nat option \<Rightarrow> ('a \<Rightarrow> response \<times> 'a) \<Rightarrow> 'a \<Rightarrow> response \<times> 'a" where
  "isAuthenticated userId next st =
     (case userId of
        None \<Rightarrow> (Redirect ''/login'', st)
      | Some n \<Rightarrow> (if n \<noteq> 0 then next st else (Redirect ''/login'', st)))"

text \<open>
  \<open>parseInt(req.params.id, 10)\<close>: leading white space, a sign, then the longest run of
  decimal digits; \<open>NaN\<close> (\<open>None\<close>) when there is no digit.
\<close>

definition is_digit :: "char \<Rightarrow> bool" where
  "is_digit c = (c \<in> set ''0123456789'')"

definition digit_value :: "char \<Rightarrow> nat" where
  "digit_value c = length (takeWhile (\<lambda>d. d \<noteq> c) ''0123456789'')"

definition parseInt10 :: "string \<Rightarrow> int option" where
  "parseInt10 s =
     (let t = dropWhile (\<lambda>c. c \<in> set [CHR '' '', CHR 0x09, CHR 0x0A, CHR 0x0D]) s;
          negative = (t \<noteq> [] \<and> hd t = CHR ''-'');
          u = (if t \<noteq> [] \<and> (hd t = CHR ''-'' \<or> hd t = CHR ''+'') then tl t else t);
          ds = takeWhile is_digit u
      in if ds = [] then None
         else Some ((if negative then - 1 else 1)
                * int (foldl (\<lambda>a c. 10 * a + digit_value c) 0 ds)))"

text \<open>
  \<open>app.post('/register/:id', ...)\<close>: the id of the path and the fields \<open>name\<close> and
  \<open>email\<close> go to the \<open>INSERT\<close> as they are.
\<close>

definition pg_register :: "bool \<Rightarrow> string \<Rightarrow> 's request \<Rightarrow> pg_store \<Rightarrow> response \<times> pg_store" where
  "pg_register db_ok id_param req st =
     (let eventId = parseInt10 id_param; nm = body req ''name''; email = body req ''email''
      in if db_ok then
           (Redirect ''/'',
            st\<lparr>pg_registrations := pg_registrations st @
              [\<lparr>pg_reg_event_id = eventId, pg_reg_name = nm, pg_reg_email = email\<rparr>]\<rparr>)
         else (Status 500, st))"

definition pg_admin :: "bool \<Rightarrow> pg_store \<Rightarrow> response \<times> pg_store" where
  "pg_admin db_ok st = (if db_ok then (Render ''admin'', st) else (Status 500, st))"

definition pg_add_event :: "bool \<Rightarrow> 's request \<Rightarrow> pg_store \<Rightarrow> response \<times> pg_store" where
  "pg_add_event db_ok req st =
     (if db_ok then
        (Redirect ''/admin'',
         st\<lparr>pg_events := pg_events st @
           [\<lparr>pg_ev_title = body req ''title'', pg_ev_description = body req ''description'',
             pg_ev_date = body req ''date'', pg_ev_time = body req ''time'',
             pg_ev_location = body req ''location''\<rparr>]\<rparr>)
      else (Status 500, st))"

definition pg_add_volunteer :: "bool \<Rightarrow> 's request \<Rightarrow> pg_store \<Rightarrow> response \<times> pg_store" where
  "pg_add_volunteer db_ok req st =
     (if db_ok then
        (Redirect ''/admin'',
         st\<lparr>pg_volunteers := pg_volunteers st @
           [\<lparr>pg_vol_name = body req ''name'', pg_vol_role = body req ''role'',
             pg_vol_bio = body req ''bio''\<rparr>]\<rparr>)
      else (Status 500, st))"

text \<open>The routes of the PostgreSQL server that are modelled, and their handler chains.\<close>

datatype pg_route = PgRegister string | PgAdmin | PgAddEvent | PgAddVolunteer

definition pg_route_of :: "http_method \<Rightarrow> string \<Rightarrow> pg_route option" where
  "pg_route_of m p =
     (if m = POST \<and> take 10 p = ''/register/'' \<and> drop 10 p \<noteq> [] \<and> CHR ''/'' \<notin> set (drop 10 p)
      then Some (PgRegister (drop 10 p))
      else if m = GET \<and> p = ''/admin'' then Some PgAdmin
      else if m = POST \<and> p = ''/admin/add-event'' then Some PgAddEvent
      else if m = POST \<and> p = ''/admin/add-volunteer'' then Some PgAddVolunteer
      else None)"

definition pg_serve ::
  "bool \<Rightarrow> pg_route \<Rightarrow> nat option request \<Rightarrow> pg_store \<Rightarrow> response \<times> pg_store" where
  "pg_serve db_ok r req st =
     (case r of
        PgRegister id_param \<Rightarrow> pg_register db_ok id_param req st
      | PgAdmin \<Rightarrow> isAuthenticated (session req) (pg_admin db_ok) st
      | PgAddEvent \<Rightarrow> isAuthenticated (session req) (pg_add_event db_ok req) st
      | PgAddVolunteer \<Rightarrow> isAuthenticated (session req) (pg_add_volunteer db_ok req) st)"

text \<open>The name of the role of a user, through the tables of users and roles.\<close>

definition role_name_of :: "pg_store \<Rightarrow> nat \<Rightarrow> string option" where
  "role_name_of st uid =
     (case find (\<lambda>u. user_id u = uid) (pg_users st) of
        None \<Rightarrow> None
      | Some u \<Rightarrow> map_option snd (find (\<lambda>r. fst r = role_id u) (pg_roles st)))"

text \<open>The environment in which no step throws.\<close>

definition no_failure :: "step \<Rightarrow> bool" where
  "no_failure s = False"

text \<open>Sample data: a store with the admin and a staff member, and a request without fields.\<close>

definition pg_sample :: pg_store where
  "pg_sample =
     \<lparr>pg_roles = seeded_roles,
      pg_users = [\<lparr>user_id = 1, username = ''admin'', password = ''h1'', role_id = 1\<rparr>,
                  \<lparr>user_id = 2, username = ''bob'', password = ''h2'', role_id = 2\<rparr>],
      pg_events = [], pg_volunteers = [], pg_registrations = []\<rparr>"

definition no_body :: "string \<Rightarrow> string option" where
  "no_body k = None"

section \<open>Lemmas on numbers\<close>

lemma bit_length_le: "n < 2 ^ k \<Longrightarrow> bit_length n \<le> k"
proof (induction n arbitrary: k rule: bit_length.induct)
  case (1 n)
  show ?case
  proof (cases "n = 0")
    case True
    then show ?thesis by (simp add: bit_length.simps)
  next
    case False
    with "1.prems" obtain j where k: "k = Suc j" by (cases k) auto
    with "1.prems" have "n div 2 < 2 ^ j" by auto
    with "1.IH" [OF False] have "bit_length (n div 2) \<le> j" by simp
    with False k show ?thesis by (simp add: bit_length.simps [of n])
  qed
qed

lemma bit_length_bounds: "0 < n \<Longrightarrow> 2 ^ (bit_length n - 1) \<le> n \<and> n < 2 ^ bit_length n"
proof (induction n rule: bit_length.induct)
  case (1 n)
  show ?case
  proof (cases "n div 2 = 0")
    case True
    with "1.prems" have "n = 1" by (simp add: div_eq_0_iff) 
    then show ?thesis by (simp add: bit_length.simps)
  next
    case False
    then have pos: "0 < n div 2" by simp
    from "1.prems" have n0: "n \<noteq> 0" by simp
    from "1.IH" [OF n0 pos] have ih: "2 ^ (bit_length (n div 2) - 1) \<le> n div 2"
      "n div 2 < 2 ^ bit_length (n div 2)" by simp_all
    have bl: "bit_length n = Suc (bit_length (n div 2))" using n0 by (simp add: bit_length.simps [of n])
    have blpos: "0 < bit_length (n div 2)" using pos by (simp add: bit_length.simps [of "n div 2"])
    then obtain j where j: "bit_length (n div 2) = Suc j" by (cases "bit_length (n div 2)") auto
    from ih j have "2 ^ j \<le> n div 2" "n div 2 < 2 ^ Suc j" by simp_all
    then have "2 ^ Suc j \<le> n" "n < 2 ^ Suc (Suc j)" by auto
    with bl j show ?thesis by simp
  qed
qed

lemma round_half_even_of_int: "round_half_even (of_int m) = m"
  by (simp add: round_half_even_def)


lemma pow2_nonpos: "k \<le> 0 \<Longrightarrow> pow2 k = 1 / 2 ^ nat (- k)"
  by (cases "k = 0") (simp_all add: pow2_def)

lemma exponent_int_le:
  assumes "1 \<le> v" and "v < 2 ^ 53"
  shows "exponent (of_int v) \<le> 52"
proof -
  have "nat v < 2 ^ 53" using assms by (simp add: nat_less_iff)
  then have "bit_length (nat v) \<le> 53" by (rule bit_length_le)
  moreover have "(1::real) \<le> of_int v" using assms by simp
  ultimately show ?thesis by (simp add: exponent_def)
qed

lemma round_to_double_int:
  assumes "\<bar>v\<bar> < 2 ^ 53"
  shows "round_to_double (of_int v) = Fin (of_int v)"
proof (cases "v = 0")
  case True
  then show ?thesis by (simp add: round_to_double_def)
next
  case False
  then have "1 \<le> \<bar>v\<bar>" by simp
  with assms have "exponent (of_int \<bar>v\<bar>) \<le> 52" by (intro exponent_int_le) simp_all
  then have "max (exponent \<bar>of_int v :: real\<bar> - 52) (- 1074) \<le> 0" by simp
  then obtain j where q: "pow2 (max (exponent \<bar>of_int v :: real\<bar> - 52) (- 1074)) = 1 / 2 ^ j"
    using pow2_nonpos by blast
  have scaled: "(of_int v :: real) / (1 / 2 ^ j) = of_int (v * 2 ^ j)" by simp
  have unscale: "(of_int (v * 2 ^ j) :: real) * (1 / 2 ^ j) = of_int v" by simp
  have "\<bar>of_int v :: real\<bar> < 2 ^ 53" using assms
    by (metis of_int_abs of_int_less_numeral_power_cancel_iff)
  also have "(2::real) ^ 53 \<le> 2 ^ 1024" by (rule power_increasing) simp_all
  finally have small: "\<not> pow2 1024 \<le> \<bar>of_int v :: real\<bar>" by (simp add: pow2_def)
  from False have nz: "(of_int v :: real) \<noteq> 0" by simp
  show ?thesis
    unfolding round_to_double_def Let_def q scaled round_half_even_of_int unscale
    using nz small by simp
qed


lemma pow2_pos: "0 < pow2 k"
  by (simp add: pow2_def)

lemma pow2_Suc: "pow2 (k + 1) = 2 * pow2 k"
proof (cases "0 \<le> k")
  case True
  then show ?thesis by (simp add: pow2_def nat_add_distrib)
next
  case False
  then have "nat (- k) = Suc (nat (- k - 1))" by simp
  then have "(2::real) ^ nat (- k) = 2 * 2 ^ nat (- k - 1)" by simp
  with False show ?thesis by (auto simp: pow2_def)
qed

lemma pow2_of_nat: "pow2 (int j) = 2 ^ j"
  by (simp add: pow2_def)

lemma pow2_neg_of_nat: "pow2 (- int j) = 1 / 2 ^ j"
  by (auto simp: pow2_def)

lemma pow2_int_pred: "0 < b \<Longrightarrow> pow2 (int b - 1) = 2 ^ (b - 1)"
  by (simp add: pow2_def nat_diff_distrib')

lemma floor_nat_bounds:
  assumes "1 \<le> (y::real)"
  shows "0 < nat \<lfloor>y\<rfloor> \<and> real (nat \<lfloor>y\<rfloor>) \<le> y \<and> y < real (nat \<lfloor>y\<rfloor>) + 1"
proof -
  from assms have "1 \<le> \<lfloor>y\<rfloor>" by (simp add: le_floor_iff)
  then show ?thesis by (auto simp: of_nat_nat)
qed

lemma bracket:
  assumes "1 \<le> (y::real)"
  defines "b \<equiv> bit_length (nat \<lfloor>y\<rfloor>)"
  shows "0 < b \<and> 2 ^ (b - 1) \<le> y \<and> y < 2 ^ b"
proof -
  let ?n = "nat \<lfloor>y\<rfloor>"
  from floor_nat_bounds [OF assms(1)] have n: "0 < ?n" "real ?n \<le> y" "y < real ?n + 1" by simp_all
  from bit_length_bounds [OF n(1)] have bb: "2 ^ (b - 1) \<le> ?n" "?n < 2 ^ b" by (simp_all add: b_def)
  from bb(1) have "(2::real) ^ (b - 1) \<le> real ?n"
    by (metis of_nat_le_iff of_nat_numeral of_nat_power)
  with n(2) have lo: "2 ^ (b - 1) \<le> y" by linarith
  from bb(2) have "?n + 1 \<le> 2 ^ b" by linarith
  then have "real (?n + 1) \<le> 2 ^ b"
    by (metis of_nat_le_iff of_nat_numeral of_nat_power)
  with n(3) have hi: "y < 2 ^ b" by simp
  from n(1) have "0 < b" by (simp add: b_def bit_length.simps [of ?n])
  with lo hi show ?thesis by simp
qed

lemma exponent_bounds:
  assumes "0 < x"
  shows "pow2 (exponent x) \<le> x \<and> x < pow2 (exponent x + 1)"
proof (cases "1 \<le> x")
  case True
  define b where "b = bit_length (nat \<lfloor>x\<rfloor>)"
  from bracket [OF True] have b: "0 < b" "2 ^ (b - 1) \<le> x" "x < 2 ^ b" by (simp_all add: b_def)
  have e: "exponent x = int b - 1" using True by (simp add: exponent_def b_def)
  have "pow2 (int b - 1 + 1) = 2 ^ b" by (simp add: pow2_of_nat)
  with e b pow2_int_pred [OF b(1)] show ?thesis by simp
next
  case False
  with assms have y1: "1 \<le> 1 / x" by simp
  define b where "b = bit_length (nat \<lfloor>1 / x\<rfloor>)"
  from bracket [OF y1] have b: "0 < b" "2 ^ (b - 1) \<le> 1 / x" "1 / x < 2 ^ b" by (simp_all add: b_def)
  from b(2) assms have up: "x * 2 ^ (b - 1) \<le> 1" by (simp add: field_simps)
  from b(3) assms have lo: "1 < x * 2 ^ b" by (simp add: field_simps)
  have pb: "pow2 (int b - 1) = 2 ^ (b - 1)" using b(1) by (rule pow2_int_pred)
  have p1: "pow2 (1 - int b) = 1 / 2 ^ (b - 1)"
    using pow2_neg_of_nat [of "b - 1"] b(1) by (simp add: of_nat_diff)
  have pm: "pow2 (- int b) = 1 / 2 ^ b" by (rule pow2_neg_of_nat)
  show ?thesis
  proof (cases "x * pow2 (int b - 1) = 1")
    case True
    then have e: "exponent x = 1 - int b" using False by (simp add: exponent_def b_def Let_def)
    from True pb have xe: "x = 1 / 2 ^ (b - 1)" by (simp add: field_simps)
    have "pow2 (exponent x + 1) = 2 * pow2 (exponent x)" by (rule pow2_Suc)
    moreover have "pow2 (exponent x) = x" using e p1 xe by simp
    ultimately show ?thesis using assms by simp
  next
    case ne: False
    then have e: "exponent x = - int b" using False by (simp add: exponent_def b_def Let_def)
    from ne pb up have "x * 2 ^ (b - 1) < 1" by simp
    then have hi: "x < 1 / 2 ^ (b - 1)" by (simp add: field_simps)
    from lo have low: "1 / 2 ^ b < x" by (simp add: field_simps)
    have "- int b + 1 = 1 - int b" by simp
    with e pm p1 hi low show ?thesis by simp
  qed
qed

lemma num_of_int_small: "\<bar>n\<bar> < 2 ^ 53 \<Longrightarrow> num_of_int n = Fin (of_int n)"
  by (simp add: num_of_int_def round_to_double_int)

lemma num_mul_int:
  assumes "\<bar>n * q\<bar> < 2 ^ 53"
  shows "num_mul (Fin (of_int n)) (Fin (of_int q)) = Fin (of_int (n * q))"
  using round_to_double_int [OF assms] by (simp add: num_mul_def)

lemma num_add_int:
  assumes "\<bar>a + b\<bar> < 2 ^ 53"
  shows "num_add (Fin (of_int a)) (Fin (of_int b)) = Fin (of_int (a + b))"
  using round_to_double_int [OF assms] by (simp add: num_add_def)

section \<open>Lemmas on the cart\<close>

lemma find_None_keys: "find (\<lambda>i. key i = k) xs = None \<longleftrightarrow> k \<notin> key ` set xs"
  by (induction xs) auto

lemma find_Some_first:
  "find (\<lambda>i. key i = k) xs = Some x \<Longrightarrow>
     first_index k xs < length xs \<and> xs ! first_index k xs = x \<and> key x = k"
  unfolding first_index_def
  by (induction xs) (auto split: if_splits)

lemma update_first_list_update:
  "find (\<lambda>i. key i = k) xs = Some x \<Longrightarrow>
     update_first (\<lambda>i. key i = k) f xs = xs[first_index k xs := f x]"
  unfolding first_index_def
  by (induction xs) (auto split: if_splits)

lemma update_first_absent: "k \<notin> key ` set xs \<Longrightarrow> update_first (\<lambda>i. key i = k) f xs = xs"
  by (induction xs) auto


lemma find_Some_mem: "find P xs = Some x \<Longrightarrow> x \<in> set xs \<and> P x"
  by (induction xs) (auto split: if_splits)

lemma add_items_cases:
  "items (add p c) =
     (case find (\<lambda>i. key i = line_key p) (items c) of
        Some found \<Rightarrow>
          (items c)[first_index (line_key p) (items c) := found\<lparr>qty := qty found + 1\<rparr>]
      | None \<Rightarrow> items c @ [new_line p])"
  by (auto simp: add_def save_def Let_def update_first_list_update split: option.splits)

lemma find_append_new:
  "k \<notin> key ` set xs \<Longrightarrow> key y = k \<Longrightarrow> find (\<lambda>i. key i = k) (xs @ [y]) = Some y"
  by (induction xs) auto

lemma first_index_absent:
  "k \<notin> key ` set xs \<Longrightarrow> first_index k (xs @ ys) = length xs + first_index k ys"
  unfolding first_index_def by (induction xs) auto

lemma key_new_line: "key (new_line p) = line_key p"
  by (simp add: new_line_def)

lemma add_twice_items:
  assumes "line_key p \<notin> key ` set (items c)"
  shows "items (add p (add p c)) = items c @ [(new_line p)\<lparr>qty := 2\<rparr>]"
proof -
  from assms have none: "find (\<lambda>i. key i = line_key p) (items c) = None"
    by (simp add: find_None_keys)
  then have one: "items (add p c) = items c @ [new_line p]"
    by (simp add: add_items_cases)
  from assms have found:
    "find (\<lambda>i. key i = line_key p) (items c @ [new_line p]) = Some (new_line p)"
    by (simp add: find_append_new key_new_line)
  from assms have idx: "first_index (line_key p) (items c @ [new_line p]) = length (items c)"
    by (simp add: first_index_absent) (simp add: first_index_def key_new_line)
  have "items (add p (add p c)) =
      (items c @ [new_line p])[length (items c) := (new_line p)\<lparr>qty := qty (new_line p) + 1\<rparr>]"
    using one found idx by (simp add: add_items_cases [of p "add p c"])
  then show ?thesis by (simp add: new_line_def)
qed

lemma line_key_variants:
  "v1 \<noteq> [] \<Longrightarrow> v2 \<noteq> [] \<Longrightarrow> v1 \<noteq> v2 \<Longrightarrow>
     line_key (p\<lparr>variant := Some v1\<rparr>) \<noteq> line_key (p\<lparr>variant := Some v2\<rparr>)"
  by (simp add: line_key_def variant_suffix_def)

lemma add_two_variants_items:
  assumes "v1 \<noteq> []" "v2 \<noteq> []" "v1 \<noteq> v2"
    and "line_key (p\<lparr>variant := Some v1\<rparr>) \<notin> key ` set (items c)"
    and "line_key (p\<lparr>variant := Some v2\<rparr>) \<notin> key ` set (items c)"
  shows "items (add (p\<lparr>variant := Some v2\<rparr>) (add (p\<lparr>variant := Some v1\<rparr>) c))
           = items c @ [new_line (p\<lparr>variant := Some v1\<rparr>), new_line (p\<lparr>variant := Some v2\<rparr>)]"
proof -
  let ?p1 = "p\<lparr>variant := Some v1\<rparr>" and ?p2 = "p\<lparr>variant := Some v2\<rparr>"
  from assms(4) have one: "items (add ?p1 c) = items c @ [new_line ?p1]"
    by (simp add: add_items_cases find_None_keys [THEN iffD2])
  from assms have "line_key ?p2 \<notin> key ` set (items c @ [new_line ?p1])"
    using line_key_variants [of v1 v2 p] by (auto simp: key_new_line)
  then have "find (\<lambda>i. key i = line_key ?p2) (items (add ?p1 c)) = None"
    using one by (simp add: find_None_keys)
  then show ?thesis using one by (simp add: add_items_cases [of ?p2])
qed

text \<open>
  Claim C1. For every product \<open>p\<close> and every cart state \<open>c\<close>: the key of the line is the
  product id, followed by a colon and the variant when a non-empty variant is given. If a
  line with that key exists, \<open>add\<close> replaces the first such line by itself with the
  quantity plus one and the array keeps its length; otherwise the array gets one more
  line at its end, with quantity 1 and that key. Adding a product twice to a cart that has
  no line for it yields one more line, of quantity 2; adding it with two different
  non-empty variants yields two more lines, with different keys.
\<close>

theorem cart_add_spec:
  "line_key p = prod_id p @
      (case variant p of None \<Rightarrow> [] | Some v \<Rightarrow> if v = [] then [] else CHR '':'' # v)
   \<and> (case find (\<lambda>i. key i = line_key p) (items c) of
        Some found \<Rightarrow>
          items (add p c) =
            (items c)[first_index (line_key p) (items c) := found\<lparr>qty := qty found + 1\<rparr>]
          \<and> length (items (add p c)) = length (items c)
      | None \<Rightarrow>
          items (add p c) = items c @ [new_line p] \<and> qty (new_line p) = 1
          \<and> key (new_line p) = line_key p)
   \<and> (line_key p \<notin> key ` set (items c) \<longrightarrow>
        items (add p (add p c)) = items c @ [(new_line p)\<lparr>qty := 2\<rparr>])
   \<and> (v1 \<noteq> [] \<and> v2 \<noteq> [] \<and> v1 \<noteq> v2
        \<and> line_key (p\<lparr>variant := Some v1\<rparr>) \<notin> key ` set (items c)
        \<and> line_key (p\<lparr>variant := Some v2\<rparr>) \<notin> key ` set (items c) \<longrightarrow>
        items (add (p\<lparr>variant := Some v2\<rparr>) (add (p\<lparr>variant := Some v1\<rparr>) c))
          = items c @ [new_line (p\<lparr>variant := Some v1\<rparr>), new_line (p\<lparr>variant := Some v2\<rparr>)]
        \<and> key (new_line (p\<lparr>variant := Some v1\<rparr>)) \<noteq> key (new_line (p\<lparr>variant := Some v2\<rparr>)))"
proof -
  have k: "line_key p = prod_id p @
      (case variant p of None \<Rightarrow> [] | Some v \<Rightarrow> if v = [] then [] else CHR '':'' # v)"
    by (simp add: line_key_def variant_suffix_def)
  have a: "case find (\<lambda>i. key i = line_key p) (items c) of
        Some found \<Rightarrow>
          items (add p c) =
            (items c)[first_index (line_key p) (items c) := found\<lparr>qty := qty found + 1\<rparr>]
          \<and> length (items (add p c)) = length (items c)
      | None \<Rightarrow>
          items (add p c) = items c @ [new_line p] \<and> qty (new_line p) = 1
          \<and> key (new_line p) = line_key p"
    by (simp add: add_items_cases new_line_def split: option.splits)
  have twice: "line_key p \<notin> key ` set (items c) \<longrightarrow>
        items (add p (add p c)) = items c @ [(new_line p)\<lparr>qty := 2\<rparr>]"
    by (simp add: add_twice_items)
  have two: "v1 \<noteq> [] \<and> v2 \<noteq> [] \<and> v1 \<noteq> v2
        \<and> line_key (p\<lparr>variant := Some v1\<rparr>) \<notin> key ` set (items c)
        \<and> line_key (p\<lparr>variant := Some v2\<rparr>) \<notin> key ` set (items c) \<longrightarrow>
        items (add (p\<lparr>variant := Some v2\<rparr>) (add (p\<lparr>variant := Some v1\<rparr>) c))
          = items c @ [new_line (p\<lparr>variant := Some v1\<rparr>), new_line (p\<lparr>variant := Some v2\<rparr>)]
        \<and> key (new_line (p\<lparr>variant := Some v1\<rparr>)) \<noteq> key (new_line (p\<lparr>variant := Some v2\<rparr>))"
    using add_two_variants_items [of v1 v2 p c] line_key_variants [of v1 v2 p]
    by (simp add: key_new_line)
  from k a twice two show ?thesis by blast
qed

text \<open>
  The sample of the specification: \<open>add({id:"p1"})\<close> twice gives one line of quantity 2,
  and the variants \<open>L\<close> and \<open>M\<close> of \<open>p1\<close> give the two lines \<open>p1:L\<close> and \<open>p1:M\<close>.
\<close>

theorem cart_add_spec_witness:
  "items (add tshirt (add tshirt empty_cart)) = [(new_line tshirt)\<lparr>qty := 2\<rparr>]
   \<and> items (add (tshirt\<lparr>variant := Some ''M''\<rparr>) (add (tshirt\<lparr>variant := Some ''L''\<rparr>) empty_cart))
       = [new_line (tshirt\<lparr>variant := Some ''L''\<rparr>), new_line (tshirt\<lparr>variant := Some ''M''\<rparr>)]
   \<and> key (new_line tshirt) = ''p1''
   \<and> key (new_line (tshirt\<lparr>variant := Some ''L''\<rparr>)) = ''p1:L''
   \<and> key (new_line (tshirt\<lparr>variant := Some ''M''\<rparr>)) = ''p1:M''"
  using cart_add_spec [of tshirt empty_cart "''L''" "''M''"]
  by (simp add: empty_cart_def tshirt_def new_line_def line_key_def variant_suffix_def)

subsection \<open>Quantities stay positive\<close>

lemma qty_ok_inc_first: "qty_ok xs \<Longrightarrow> qty_ok (update_first P (\<lambda>i. i\<lparr>qty := qty i + 1\<rparr>) xs)"
  unfolding qty_ok_def by (induction xs) auto

lemma qty_ok_dec_first:
  "qty_ok xs \<Longrightarrow> find P xs = Some it \<Longrightarrow> 1 < qty it \<Longrightarrow>
     qty_ok (update_first P (\<lambda>i. i\<lparr>qty := qty i - 1\<rparr>) xs)"
  unfolding qty_ok_def by (induction xs) (auto split: if_splits)

lemma qty_ok_filter: "qty_ok xs \<Longrightarrow> qty_ok (filter P xs)"
  unfolding qty_ok_def by (induction xs) auto

lemma qty_ok_add: "qty_ok (items c) \<Longrightarrow> qty_ok (items (add p c))"
  by (auto simp: add_def save_def Let_def qty_ok_inc_first split: option.splits)
     (simp add: qty_ok_def new_line_def)

lemma qty_ok_inc: "qty_ok (items c) \<Longrightarrow> qty_ok (items (inc k c))"
  by (auto simp: inc_def save_def qty_ok_inc_first split: option.splits)

lemma qty_ok_remove: "qty_ok (items c) \<Longrightarrow> qty_ok (items (remove k c))"
  by (simp add: remove_def save_def qty_ok_filter)

lemma qty_ok_dec: "qty_ok (items c) \<Longrightarrow> qty_ok (items (dec k c))"
  by (auto simp: dec_def save_def qty_ok_dec_first qty_ok_remove split: option.splits)

lemma qty_ok_clear: "qty_ok (items (clear c))"
  by (simp add: clear_def save_def qty_ok_def)

lemma qty_ok_apply_op: "qty_ok (items c) \<Longrightarrow> qty_ok (items (apply_op x c))"
  by (cases x) (simp_all add: qty_ok_add qty_ok_inc qty_ok_dec qty_ok_remove qty_ok_clear)

lemma qty_ok_run: "qty_ok (items c) \<Longrightarrow> qty_ok (items (run xs c))"
  by (induction xs arbitrary: c) (simp_all add: qty_ok_apply_op)

lemma dec_last_unit:
  assumes "find (\<lambda>i. key i = k) (items c) = Some it" and "qty it \<le> 1"
  shows "items (dec k c) = filter (\<lambda>i. key i \<noteq> k) (items c)"
  using assms by (simp add: dec_def remove_def save_def)

text \<open>
  Claim C2. After every sequence of the operations add, inc, dec, remove and clear run
  from the empty cart, every line of the cart has a quantity of at least 1. And in every
  cart state, \<open>dec\<close> on a key whose line has quantity 1 removes the lines of that key:
  no line of that key is left (none with quantity 0 or less), and the cart is shorter.
\<close>

theorem cart_qty_positive:
  "(\<forall>l \<in> set (items (run ops empty_cart)). 1 \<le> qty l)
   \<and> (find (\<lambda>i. key i = k) (items c) = Some it \<and> qty it = 1 \<longrightarrow>
        items (dec k c) = filter (\<lambda>i. key i \<noteq> k) (items c)
        \<and> k \<notin> key ` set (items (dec k c))
        \<and> length (items (dec k c)) < length (items c))"
proof -
  have "qty_ok (items (run ops empty_cart))"
    by (rule qty_ok_run) (simp add: empty_cart_def qty_ok_def)
  then have inv: "\<forall>l \<in> set (items (run ops empty_cart)). 1 \<le> qty l"
    by (simp add: qty_ok_def list_all_iff)
  have rm: "items (dec k c) = filter (\<lambda>i. key i \<noteq> k) (items c)
        \<and> k \<notin> key ` set (items (dec k c))
        \<and> length (items (dec k c)) < length (items c)"
    if f: "find (\<lambda>i. key i = k) (items c) = Some it" and q: "qty it = 1"
  proof -
    from f q have eq: "items (dec k c) = filter (\<lambda>i. key i \<noteq> k) (items c)"
      by (simp add: dec_last_unit)
    from f have mem: "it \<in> set (items c)" and kk: "key it = k"
      using find_Some_mem [of "\<lambda>i. key i = k" "items c" it] by simp_all
    have "length (filter (\<lambda>i. key i \<noteq> k) (items c)) < length (items c)"
      using mem kk by (intro length_filter_less [of it]) simp_all
    with eq show ?thesis by auto
  qed
  from inv rm show ?thesis by blast
qed

theorem cart_qty_positive_witness:
  "items (run [Add tshirt, Add tshirt, Inc ''p1'', Dec ''p1'', Dec ''p1''] empty_cart)
       = [new_line tshirt]
   \<and> find (\<lambda>i. key i = ''p1'') (items (add tshirt empty_cart)) = Some (new_line tshirt)
   \<and> qty (new_line tshirt) = 1
   \<and> items (dec ''p1'' (add tshirt empty_cart)) = []"
  using cart_qty_positive [of "[Add tshirt, Add tshirt, Inc ''p1'', Dec ''p1'', Dec ''p1'']"
      "''p1''" "add tshirt empty_cart" "new_line tshirt"]
  by (simp add: empty_cart_def tshirt_def new_line_def line_key_def variant_suffix_def
        add_def inc_def dec_def remove_def save_def Let_def)

subsection \<open>The total\<close>

text \<open>The whole prices of the lines, and the exact value of a cart of such lines.\<close>

lemma whole_Fin: "whole x \<Longrightarrow> x = Fin (of_int \<lfloor>num_value x\<rfloor>)"
  by (cases x) (simp_all add: whole_def num_value_def)

lemma whole_value: "whole x \<Longrightarrow> num_value x = of_int \<lfloor>num_value x\<rfloor>"
  by (cases x) (simp_all add: whole_def num_value_def)

lemma whole_times:
  assumes "(v::real) = of_int \<lfloor>v\<rfloor>"
  shows "v * of_int q = of_int (\<lfloor>v\<rfloor> * q)" and "\<bar>v * of_int q\<bar> = of_int \<bar>\<lfloor>v\<rfloor> * q\<bar>"
proof -
  obtain n where n: "v = of_int n" using assms ..
  then have "\<lfloor>v\<rfloor> = n" by simp
  with n show eq: "v * of_int q = of_int (\<lfloor>v\<rfloor> * q)" by simp
  show "\<bar>v * of_int q\<bar> = of_int \<bar>\<lfloor>v\<rfloor> * q\<bar>"
    unfolding eq by (simp only: of_int_abs)
qed

lemma of_int_sum_list_map:
  "real_of_int (\<Sum>x\<leftarrow>xs. f x) = (\<Sum>x\<leftarrow>xs. real_of_int (f x))"
  by (induction xs) simp_all

lemma foldl_total_whole:
  assumes "list_all (\<lambda>i. whole (price i) \<and> \<bar>qty i\<bar> < 2 ^ 53) xs"
    and "\<bar>a\<bar> + (\<Sum>i\<leftarrow>xs. \<bar>\<lfloor>num_value (price i)\<rfloor> * qty i\<bar>) < 2 ^ 53"
  shows "foldl (\<lambda>s i. num_add s (num_mul (price i) (num_of_int (qty i)))) (Fin (of_int a)) xs
           = Fin (of_int (a + (\<Sum>i\<leftarrow>xs. \<lfloor>num_value (price i)\<rfloor> * qty i)))"
  using assms
proof (induction xs arbitrary: a)
  case Nil
  then show ?case by simp
next
  case (Cons l xs)
  let ?n = "\<lfloor>num_value (price l)\<rfloor>"
  let ?rest = "\<Sum>i\<leftarrow>xs. \<bar>\<lfloor>num_value (price i)\<rfloor> * qty i\<bar>"
  from Cons.prems(1) have w: "whole (price l)" and q: "\<bar>qty l\<bar> < 2 ^ 53"
    and tl: "list_all (\<lambda>i. whole (price i) \<and> \<bar>qty i\<bar> < 2 ^ 53) xs" by simp_all
  have rest0: "0 \<le> ?rest" by (rule sum_list_nonneg) auto
  from Cons.prems(2) have bound: "\<bar>a\<bar> + \<bar>?n * qty l\<bar> + ?rest < 2 ^ 53" by simp
  with rest0 have prod: "\<bar>?n * qty l\<bar> < 2 ^ 53" by linarith
  from bound rest0 have sum: "\<bar>a + ?n * qty l\<bar> < 2 ^ 53" by linarith
  from bound have next_bound: "\<bar>a + ?n * qty l\<bar> + ?rest < 2 ^ 53" by linarith
  have pl: "price l = Fin (of_int ?n)" using w by (rule whole_Fin)
  have "num_mul (price l) (num_of_int (qty l)) = Fin (of_int (?n * qty l))"
    using num_mul_int [OF prod] num_of_int_small [OF q] pl by simp
  then have step: "num_add (Fin (of_int a)) (num_mul (price l) (num_of_int (qty l)))
      = Fin (of_int (a + ?n * qty l))"
    using num_add_int [OF sum] by simp
  have "foldl (\<lambda>s i. num_add s (num_mul (price i) (num_of_int (qty i)))) (Fin (of_int a)) (l # xs)
      = foldl (\<lambda>s i. num_add s (num_mul (price i) (num_of_int (qty i))))
          (Fin (of_int (a + ?n * qty l))) xs"
    by (simp only: foldl_Cons step)
  also have "\<dots> = Fin (of_int (a + ?n * qty l + (\<Sum>i\<leftarrow>xs. \<lfloor>num_value (price i)\<rfloor> * qty i)))"
    by (rule Cons.IH [OF tl next_bound])
  also have "a + ?n * qty l + (\<Sum>i\<leftarrow>xs. \<lfloor>num_value (price i)\<rfloor> * qty i)
      = a + (\<Sum>i\<leftarrow>l # xs. \<lfloor>num_value (price i)\<rfloor> * qty i)"
    by simp
  finally show ?case .
qed

lemma total_snoc:
  "total (c\<lparr>items := xs @ [l]\<rparr>)
     = num_add (total (c\<lparr>items := xs\<rparr>)) (num_mul (price l) (num_of_int (qty l)))"
  by (simp add: total_def)

lemma coin_items:
  "items (run [Add coin, Add coin, Add coin] empty_cart) = [(new_line coin)\<lparr>qty := 3\<rparr>]"
  by (simp add: add_def save_def Let_def empty_cart_def new_line_def line_key_def
        variant_suffix_def coin_def)

lemma coin_price: "round_to_double (1 / 10) = price coin"
  unfolding coin_def
  by (simp add: round_to_double_def exponent_def bit_length.simps pow2_def
        round_half_even_def Let_def)

lemma num_of_int_three: "num_of_int 3 = Fin 3"
  using num_of_int_small [of 3] by simp

lemma coin_times_three:
  "num_add (Fin 0) (num_mul (Fin (3602879701896397 / 36028797018963968)) (num_of_int 3))
     = Fin (1351079888211149 / 4503599627370496)"
  unfolding num_of_int_three
  by (simp add: num_add_def num_mul_def round_to_double_def exponent_def bit_length.simps
        pow2_def round_half_even_def Let_def)

text \<open>
  Claim C9, as amended. \<open>total()\<close> adds the products \<open>price * qty\<close> of the lines to 0,
  from the first line to the last, in the arithmetic of doubles: each product and each
  partial sum is rounded to the nearest double, and nothing else (no tax, no discount) is
  added or deducted. It is 0 for the empty cart and after \<open>clear\<close>; the total of a cart
  with one more line at its end is the total without that line plus the product of that
  line. When every price is a whole number, every quantity is below \<open>2^53\<close> in absolute
  value and the absolute values of the products add up to less than \<open>2^53\<close>, no rounding
  occurs and \<open>total()\<close> is the exact sum of \<open>price * qty\<close> over the lines.
\<close>

theorem cart_total_rounded_sum:
  "total empty_cart = Fin 0 \<and> total (clear c) = Fin 0
   \<and> total (c\<lparr>items := xs @ [l]\<rparr>)
       = num_add (total (c\<lparr>items := xs\<rparr>)) (num_mul (price l) (num_of_int (qty l)))
   \<and> (list_all (\<lambda>i. whole (price i) \<and> \<bar>qty i\<bar> < 2 ^ 53) (items c)
        \<and> (\<Sum>i\<leftarrow>items c. \<bar>num_value (price i) * of_int (qty i)\<bar>) < 2 ^ 53
      \<longrightarrow> total c = Fin (\<Sum>i\<leftarrow>items c. num_value (price i) * of_int (qty i)))"
proof -
  have e: "total empty_cart = Fin 0 \<and> total (clear c) = Fin 0"
    by (simp add: total_def empty_cart_def clear_def save_def)
  have exact: "total c = Fin (\<Sum>i\<leftarrow>items c. num_value (price i) * of_int (qty i))"
    if ok: "list_all (\<lambda>i. whole (price i) \<and> \<bar>qty i\<bar> < 2 ^ 53) (items c)"
      and small: "(\<Sum>i\<leftarrow>items c. \<bar>num_value (price i) * of_int (qty i)\<bar>) < 2 ^ 53"
  proof -
    have val: "num_value (price i) = of_int \<lfloor>num_value (price i)\<rfloor>" if "i \<in> set (items c)" for i
      using ok that by (intro whole_value) (simp add: list_all_iff)
    have m1: "map (\<lambda>i. \<bar>num_value (price i) * of_int (qty i)\<bar>) (items c)
        = map (\<lambda>i. real_of_int \<bar>\<lfloor>num_value (price i)\<rfloor> * qty i\<bar>) (items c)"
      using val by (intro map_cong refl whole_times(2))
    have m2: "map (\<lambda>i. num_value (price i) * of_int (qty i)) (items c)
        = map (\<lambda>i. real_of_int (\<lfloor>num_value (price i)\<rfloor> * qty i)) (items c)"
      using val by (intro map_cong refl whole_times(1))
    have s1: "(\<Sum>i\<leftarrow>items c. \<bar>num_value (price i) * of_int (qty i)\<bar>)
        = real_of_int (\<Sum>i\<leftarrow>items c. \<bar>\<lfloor>num_value (price i)\<rfloor> * qty i\<bar>)"
      unfolding m1 by (simp only: of_int_sum_list_map)
    have s2: "(\<Sum>i\<leftarrow>items c. num_value (price i) * of_int (qty i))
        = real_of_int (\<Sum>i\<leftarrow>items c. \<lfloor>num_value (price i)\<rfloor> * qty i)"
      unfolding m2 by (simp only: of_int_sum_list_map)
    from small have "real_of_int (\<Sum>i\<leftarrow>items c. \<bar>\<lfloor>num_value (price i)\<rfloor> * qty i\<bar>) < 2 ^ 53"
      unfolding s1 .
    then have "(\<Sum>i\<leftarrow>items c. \<bar>\<lfloor>num_value (price i)\<rfloor> * qty i\<bar>) < 2 ^ 53"
      by (simp only: of_int_less_numeral_power_cancel_iff)
    then have "\<bar>0::int\<bar> + (\<Sum>i\<leftarrow>items c. \<bar>\<lfloor>num_value (price i)\<rfloor> * qty i\<bar>) < 2 ^ 53"
      by simp
    from foldl_total_whole [OF ok this]
    have "total c = Fin (real_of_int (0 + (\<Sum>i\<leftarrow>items c. \<lfloor>num_value (price i)\<rfloor> * qty i)))"
      unfolding total_def by simp
    then show ?thesis unfolding s2 by simp
  qed
  from e total_snoc [where c = c and xs = xs and l = l] exact show ?thesis by blast
qed

theorem cart_total_rounded_sum_witness:
  "total (run [Add tshirt, Add tshirt, Add (tshirt\<lparr>variant := Some ''L''\<rparr>)] empty_cart) = Fin 60
   \<and> total empty_cart = Fin 0"
proof -
  have i: "items (run [Add tshirt, Add tshirt, Add (tshirt\<lparr>variant := Some ''L''\<rparr>)] empty_cart)
      = [(new_line tshirt)\<lparr>qty := 2\<rparr>, new_line (tshirt\<lparr>variant := Some ''L''\<rparr>)]"
    by (simp add: add_def save_def Let_def empty_cart_def new_line_def line_key_def
          variant_suffix_def tshirt_def)
  show ?thesis
    using cart_total_rounded_sum
      [where c = "run [Add tshirt, Add tshirt, Add (tshirt\<lparr>variant := Some ''L''\<rparr>)] empty_cart"
         and xs = "[]" and l = "new_line tshirt"]
    unfolding i
    by (simp add: new_line_def tshirt_def whole_def num_value_def total_def)
qed

text \<open>
  Claim C9 as stated, with the exact sum, fails: three units of a product of ten cents,
  whose price is the double nearest to \<open>0.1\<close>, have the total \<open>0.30000000000000004\<close>
  (the double \<open>1351079888211149 / 2^52\<close>), which is not the sum of \<open>price * qty\<close> over the
  lines, three times that double.
\<close>

theorem cart_total_not_exact_sum:
  "price coin = round_to_double (1 / 10)
   \<and> total (run [Add coin, Add coin, Add coin] empty_cart)
       = Fin (1351079888211149 / 4503599627370496)
   \<and> (\<Sum>i\<leftarrow>items (run [Add coin, Add coin, Add coin] empty_cart).
         num_value (price i) * of_int (qty i)) = 10808639105689191 / 36028797018963968
   \<and> total (run [Add coin, Add coin, Add coin] empty_cart)
       \<noteq> Fin (\<Sum>i\<leftarrow>items (run [Add coin, Add coin, Add coin] empty_cart).
               num_value (price i) * of_int (qty i))"
proof -
  have t: "total (run [Add coin, Add coin, Add coin] empty_cart)
       = Fin (1351079888211149 / 4503599627370496)"
    unfolding total_def coin_items using coin_times_three
    by (simp add: new_line_def coin_def)
  have s: "(\<Sum>i\<leftarrow>items (run [Add coin, Add coin, Add coin] empty_cart).
         num_value (price i) * of_int (qty i)) = 10808639105689191 / 36028797018963968"
    unfolding coin_items by (simp add: new_line_def coin_def num_value_def)
  show ?thesis unfolding t s using coin_price by simp
qed

subsection \<open>Keys that match no line\<close>

text \<open>
  Claim C10. In every cart state, for every key \<open>k\<close> that is the key of no line, each of
  \<open>inc(k)\<close>, \<open>dec(k)\<close> and \<open>remove(k)\<close> leaves the array of lines as it is; \<open>inc(k)\<close> leaves
  the whole state as it is. For such a key \<open>find\<close> yields \<open>undefined\<close>, which both
  \<open>if(it)\<close> and \<open>it && ...\<close> test before any property of \<open>it\<close> is read, so no line
  is read or changed; \<open>dec\<close> and \<open>remove\<close> still call \<open>save\<close>, whose write to the
  storage is taken to succeed here as everywhere in the model.
\<close>

theorem cart_absent_key_noop:
  "k \<notin> key ` set (items c) \<Longrightarrow>
     items (inc k c) = items c \<and> items (dec k c) = items c \<and> items (remove k c) = items c
     \<and> inc k c = c"
proof -
  assume a: "k \<notin> key ` set (items c)"
  then have none: "find (\<lambda>i. key i = k) (items c) = None"
    by (simp add: find_None_keys)
  from a have "filter (\<lambda>i. key i \<noteq> k) (items c) = items c"
    by (auto simp: filter_id_conv)
  with none show ?thesis
    by (simp add: inc_def dec_def remove_def save_def)
qed

theorem cart_absent_key_noop_witness:
  "''p2'' \<notin> key ` set (items (add tshirt empty_cart))
   \<and> items (inc ''p2'' (add tshirt empty_cart)) = [new_line tshirt]
   \<and> items (dec ''p2'' (add tshirt empty_cart)) = [new_line tshirt]
   \<and> items (remove ''p2'' (add tshirt empty_cart)) = [new_line tshirt]"
  using cart_absent_key_noop [of "''p2''" "add tshirt empty_cart"]
  by (simp add: empty_cart_def tshirt_def new_line_def line_key_def variant_suffix_def
        add_def save_def Let_def)


subsection \<open>Loading\<close>

lemma load_parse_failure:
  "parse s = None \<Longrightarrow> s \<noteq> [] \<Longrightarrow> load parse render (Some s) = (JArr [], None)"
  by (simp add: load_def updateUI_def)

lemma load_missing:
  "parse ''[]'' = Some (JArr []) \<Longrightarrow>
     load parse render None = (JArr [], None) \<and> load parse render (Some []) = (JArr [], None)"
  by (simp add: load_def updateUI_def)

lemma load_non_array_raises:
  assumes "parse s = Some v" and "s \<noteq> []" and "\<nexists>xs. v = JArr xs"
  shows "load parse render (Some s) = (v, Some TypeError)"
  using assms by (cases v) (auto simp: load_def updateUI_def)

text \<open>
  Claim C7 says that \<open>load\<close> never raises, whatever is stored. The code catches what
  \<open>JSON.parse\<close> throws, and then the cart is empty (\<open>load_parse_failure\<close>, and
  \<open>load_missing\<close> for a missing entry). It does not catch what \<open>updateUI\<close> throws on a
  stored text that is JSON but no array (\<open>load_non_array_raises\<close>): with the text \<open>null\<close>
  under the key, \<open>cart.items\<close> becomes \<open>null\<close> and \<open>load\<close> throws a \<open>TypeError\<close> to its
  caller, whereas the malformed text \<open>{oops\<close> and a missing entry give the empty cart and
  no exception.
\<close>

theorem load_null_raises:
  "load parse_sample render (Some ''null'') = (JNull, Some TypeError)
   \<and> load parse_sample render (Some ''{oops'') = (JArr [], None)
   \<and> load parse_sample render None = (JArr [], None)"
  by (simp add: load_def updateUI_def parse_sample_def)

subsection \<open>Checkout\<close>

lemma join_concat: "join sep (x # xs) = x @ concat (map (\<lambda>y. sep @ y) xs)"
  by (induction xs arbitrary: x) simp_all

lemma join_map_concat:
  "xs \<noteq> [] \<Longrightarrow> join sep (map f xs) = f (hd xs) @ concat (map (\<lambda>i. sep @ f i) (tl xs))"
  by (cases xs) (simp_all add: join_concat comp_def)

lemma sample_amounts:
  "num_mul (Fin 20) (num_of_int 2) = Fin 40" "num_mul (Fin 20) (num_of_int 1) = Fin 20"
  "num_add (Fin 0) (Fin 40) = Fin 40" "num_add (Fin 40) (Fin 20) = Fin 60"
  using num_of_int_small [of 2] num_of_int_small [of 1] num_mul_int [of 20 2] num_mul_int [of 20 1]
    num_add_int [of 0 40] num_add_int [of 40 20]
  by simp_all

text \<open>
  Claim C8. On an empty cart the checkout handler shows the alert "Votre panier est vide."
  and does nothing else: that alert is its only effect and the cart is unchanged. On a
  non-empty cart its only effect is a navigation whose target starts with \<open>mailto:\<close>, the
  handoff to the mail client (no request to a server), and the cart is unchanged. The
  target is the address and subject of the order, then the body: the greeting, then the
  text of the first cart line and, for every further cart line in the order of the cart,
  \<open>%0D%0A\<close> and its text, then the total of the order, then the closing lines. The text
  of a line is its name, its variant in parentheses when it has a non-empty one, \<open>x\<close>
  and its quantity, a dash and its price times its quantity as a currency amount.
\<close>

theorem checkout_spec:
  "(items c = [] \<longrightarrow> checkoutEmail eur c = ([Alert ''Votre panier est vide.''], c))
   \<and> (items c \<noteq> [] \<longrightarrow>
        (\<exists>rest. checkoutEmail eur c = ([Navigate (''mailto:'' @ rest)], c))
        \<and> checkoutEmail eur c =
          ([Navigate
             (''mailto:contact@pacs-simpa.org?subject=Commande%20Shop%20Solidaire&body=''
              @ ''Bonjour,%0D%0A%0D%0AJe souhaite commander les articles suivants :%0D%0A''
              @ line_text eur (hd (items c))
              @ concat (map (\<lambda>i. ''%0D%0A'' @ line_text eur i) (tl (items c)))
              @ ''%0D%0A%0D%0ATotal : ''
              @ eur (foldl (\<lambda>s i. num_add s (num_mul (price i) (num_of_int (qty i)))) (Fin 0)
                      (items c))
              @ ''%0D%0A%0D%0ANom : %0D%0AAdresse de livraison : %0D%0AT''
              @ [CHR 0xC3, CHR 0xA9] @ ''l'' @ [CHR 0xC3, CHR 0xA9]
              @ ''phone : %0D%0AMode de paiement pr'' @ [CHR 0xC3, CHR 0xA9] @ ''f''
              @ [CHR 0xC3, CHR 0xA9] @ ''r'' @ [CHR 0xC3, CHR 0xA9]
              @ '' : %0D%0A%0D%0AMerci !'')], c))
   \<and> line_text eur i =
        ''- '' @ name i
          @ (case variant i of None \<Rightarrow> [] | Some v \<Rightarrow> if v = [] then [] else '' ('' @ v @ '')'')
          @ '' x'' @ show_int (qty i) @ '' '' @ [CHR 0xE2, CHR 0x80, CHR 0x94] @ '' ''
          @ eur (num_mul (price i) (num_of_int (qty i)))"
proof -
  have none: "items c = [] \<longrightarrow> checkoutEmail eur c = ([Alert ''Votre panier est vide.''], c)"
    by (simp add: checkoutEmail_def)
  have mail: "checkoutEmail eur c =
          ([Navigate
             (''mailto:contact@pacs-simpa.org?subject=Commande%20Shop%20Solidaire&body=''
              @ ''Bonjour,%0D%0A%0D%0AJe souhaite commander les articles suivants :%0D%0A''
              @ line_text eur (hd (items c))
              @ concat (map (\<lambda>i. ''%0D%0A'' @ line_text eur i) (tl (items c)))
              @ ''%0D%0A%0D%0ATotal : ''
              @ eur (foldl (\<lambda>s i. num_add s (num_mul (price i) (num_of_int (qty i)))) (Fin 0)
                      (items c))
              @ ''%0D%0A%0D%0ANom : %0D%0AAdresse de livraison : %0D%0AT''
              @ [CHR 0xC3, CHR 0xA9] @ ''l'' @ [CHR 0xC3, CHR 0xA9]
              @ ''phone : %0D%0AMode de paiement pr'' @ [CHR 0xC3, CHR 0xA9] @ ''f''
              @ [CHR 0xC3, CHR 0xA9] @ ''r'' @ [CHR 0xC3, CHR 0xA9]
              @ '' : %0D%0A%0D%0AMerci !'')], c)"
    if "items c \<noteq> []"
    using that
    by (simp add: checkoutEmail_def mail_body_def mailto_prefix_def body_intro_def
          body_outro_def e_acute_def total_def join_map_concat)
  have handoff: "\<exists>rest. checkoutEmail eur c = ([Navigate (''mailto:'' @ rest)], c)"
    if "items c \<noteq> []"
    using that by (simp add: checkoutEmail_def mailto_prefix_def)
  have ltext: "line_text eur i =
        ''- '' @ name i
          @ (case variant i of None \<Rightarrow> [] | Some v \<Rightarrow> if v = [] then [] else '' ('' @ v @ '')'')
          @ '' x'' @ show_int (qty i) @ '' '' @ [CHR 0xE2, CHR 0x80, CHR 0x94] @ '' ''
          @ eur (num_mul (price i) (num_of_int (qty i)))"
    by (simp add: line_text_def variant_label_def em_dash_def)
  from none mail handoff ltext show ?thesis by blast
qed

theorem checkout_spec_witness:
  "checkoutEmail eur_sample empty_cart = ([Alert ''Votre panier est vide.''], empty_cart)
   \<and> fst (checkoutEmail eur_sample
        (add (tshirt\<lparr>variant := Some ''L''\<rparr>) (add tshirt (add tshirt empty_cart)))) =
       [Navigate
          (''mailto:contact@pacs-simpa.org?subject=Commande%20Shop%20Solidaire&body=''
           @ ''Bonjour,%0D%0A%0D%0AJe souhaite commander les articles suivants :%0D%0A''
           @ ''- T-shirt x2 '' @ [CHR 0xE2, CHR 0x80, CHR 0x94] @ '' <40>''
           @ ''%0D%0A- T-shirt (L) x1 '' @ [CHR 0xE2, CHR 0x80, CHR 0x94] @ '' <20>''
           @ ''%0D%0A%0D%0ATotal : <60>''
           @ ''%0D%0A%0D%0ANom : %0D%0AAdresse de livraison : %0D%0AT''
           @ [CHR 0xC3, CHR 0xA9] @ ''l'' @ [CHR 0xC3, CHR 0xA9]
           @ ''phone : %0D%0AMode de paiement pr'' @ [CHR 0xC3, CHR 0xA9] @ ''f''
           @ [CHR 0xC3, CHR 0xA9] @ ''r'' @ [CHR 0xC3, CHR 0xA9]
           @ '' : %0D%0A%0D%0AMerci !'')]"
proof -
  have i: "items (add (tshirt\<lparr>variant := Some ''L''\<rparr>) (add tshirt (add tshirt empty_cart)))
      = [(new_line tshirt)\<lparr>qty := 2\<rparr>, new_line (tshirt\<lparr>variant := Some ''L''\<rparr>)]"
    by (simp add: add_def save_def Let_def empty_cart_def new_line_def line_key_def
          variant_suffix_def tshirt_def)
  show ?thesis
    using checkout_spec [of empty_cart eur_sample]
      checkout_spec [of "add (tshirt\<lparr>variant := Some ''L''\<rparr>) (add tshirt (add tshirt empty_cart))"
        eur_sample]
    unfolding i
    by (simp add: empty_cart_def tshirt_def new_line_def eur_sample_def show_int_def
          digits.simps sample_amounts)
qed

section \<open>Lemmas on the servers\<close>

subsection \<open>Admin gate\<close>

lemma requireAdmin_redirects:
  "u = None \<or> (\<exists>usr. u = Some usr \<and> su_role usr \<noteq> ''admin'') \<Longrightarrow>
     requireAdmin u next st = (Redirect ''/login'', st)"
  by (auto simp: requireAdmin_def)

lemma requireAdmin_passes:
  "u = Some usr \<Longrightarrow> su_role usr = ''admin'' \<Longrightarrow> requireAdmin u next st = next st"
  by (simp add: requireAdmin_def)

lemma serve_admin_gate:
  assumes "r \<in> {AdminDashboard, AdminEventsAdd, AdminVolunteersAdd}"
    and "session req = None \<or> (\<exists>usr. session req = Some usr \<and> su_role usr \<noteq> ''admin'')"
  shows "serve db_ok r req st = (Redirect ''/login'', st)"
  using assms by (auto simp: serve_def requireAdmin_def)

lemma route_of_admin:
  "route_of GET ''/admin'' = Some AdminDashboard
   \<and> route_of POST ''/admin/events/add'' = Some AdminEventsAdd
   \<and> route_of POST ''/admin/volunteers/add'' = Some AdminVolunteersAdd"
  by (simp add: route_of_def)

lemma isAuthenticated_redirects:
  "isAuthenticated None next st = (Redirect ''/login'', st)"
  by (simp add: isAuthenticated_def)

lemma isAuthenticated_passes:
  "n \<noteq> 0 \<Longrightarrow> isAuthenticated (Some n) next st = next st"
  by (simp add: isAuthenticated_def)

text \<open>
  Claim C3 says that a request to an admin route whose session has no user, or a user
  whose role is not \<open>admin\<close>, never reaches the handler and is redirected to the login
  page. \<open>server.js\<close> does this, for every such request, route and store
  (\<open>serve_admin_gate\<close>). The PostgreSQL server redirects a request without a logged-in
  user (\<open>isAuthenticated_redirects\<close>), but it never looks at the role: with the staff
  member of the sample store logged in (user 2), \<open>GET /admin\<close> renders the dashboard and
  \<open>POST /admin/add-volunteer\<close> inserts a row, whereas \<open>server.js\<close> redirects a staff
  session to \<open>/login\<close>.
\<close>

theorem pg_admin_gate_ignores_role:
  "role_name_of pg_sample 2 = Some ''staff''
   \<and> pg_route_of GET ''/admin'' = Some PgAdmin
   \<and> pg_serve True PgAdmin \<lparr>session = Some 2, body = no_body\<rparr> pg_sample
        = (Render ''admin'', pg_sample)
   \<and> pg_route_of POST ''/admin/add-volunteer'' = Some PgAddVolunteer
   \<and> pg_serve True PgAddVolunteer \<lparr>session = Some 2, body = no_body\<rparr> pg_sample
        = (Redirect ''/admin'',
           pg_sample\<lparr>pg_volunteers :=
             [\<lparr>pg_vol_name = None, pg_vol_role = None, pg_vol_bio = None\<rparr>]\<rparr>)
   \<and> serve True AdminDashboard
        \<lparr>session = Some \<lparr>su_id = 2, su_username = ''bob'', su_role = ''staff''\<rparr>, body = no_body\<rparr>
        fresh_store = (Redirect ''/login'', fresh_store)"
  by (simp add: role_name_of_def pg_sample_def seeded_roles_def pg_route_of_def pg_serve_def
        isAuthenticated_def pg_admin_def pg_add_volunteer_def no_body_def serve_def
        requireAdmin_def)

subsection \<open>Registration\<close>

lemma events_register_spec:
  "(falsy (body req ''event_id'') \<or> falsy (body req ''name'') \<or> falsy (body req ''email'')
      \<longrightarrow> events_register db_ok req st = (Status 400, st))
   \<and> (\<not> falsy (body req ''event_id'') \<and> \<not> falsy (body req ''name'')
        \<and> \<not> falsy (body req ''email'') \<longrightarrow>
        events_register True req st =
          (Redirect ''/?success=1'',
           st\<lparr>registrations := registrations st @
             [\<lparr>reg_event_id = text_of (body req ''event_id''), reg_name = text_of (body req ''name''),
               reg_email = text_of (body req ''email''), reg_phone = or_null (body req ''phone'')\<rparr>]\<rparr>)
        \<and> events_register False req st = (Status 500, st))"
  by (simp add: events_register_def Let_def)

text \<open>
  Claim C6 says that a registration without event reference, name or email is answered
  with status 400 before any insert, and a complete one inserts one row and redirects to
  the home page with the success flag. \<open>server.js\<close> does this, the insert being subject
  to the database (\<open>events_register_spec\<close>). The registration route of the PostgreSQL
  server validates nothing: a request to \<open>/register/1\<close> with a name and no email goes to
  the \<open>INSERT\<close>; if the database takes it, a row without email is stored and the answer
  is a redirect to \<open>/\<close>, and if not, the answer is status 500. It is never 400. On
  \<open>server.js\<close> the same fields are answered with 400 and nothing is stored.
\<close>

theorem pg_register_unvalidated:
  "pg_route_of POST ''/register/1'' = Some (PgRegister ''1'')
   \<and> pg_serve True (PgRegister ''1'') \<lparr>session = None, body = no_body(''name'' \<mapsto> ''Bob'')\<rparr>
        pg_fresh_store
      = (Redirect ''/'',
         pg_fresh_store\<lparr>pg_registrations :=
           [\<lparr>pg_reg_event_id = Some 1, pg_reg_name = Some ''Bob'', pg_reg_email = None\<rparr>]\<rparr>)
   \<and> pg_serve False (PgRegister ''1'') \<lparr>session = None, body = no_body(''name'' \<mapsto> ''Bob'')\<rparr>
        pg_fresh_store
      = (Status 500, pg_fresh_store)
   \<and> serve True EventsRegister
        \<lparr>session = None, body = no_body(''name'' \<mapsto> ''Bob'', ''event_id'' \<mapsto> ''1'')\<rparr> fresh_store
      = (Status 400, fresh_store)"
  by (simp add: pg_route_of_def pg_serve_def pg_register_def parseInt10_def is_digit_def
        digit_value_def no_body_def pg_fresh_store_def serve_def events_register_def falsy_def
        Let_def)

subsection \<open>Bootstrap\<close>

lemma bootstrap_fresh:
  "bootstrap (Some h) fresh_store =
     (fresh_store\<lparr>roles := seeded_roles,
        users := [\<lparr>user_id = 1, username = ''admin'', password = h, role_id = 1\<rparr>]\<rparr>, [])"
  by (simp add: bootstrap_def seed_admin_def seed_roles_def fresh_store_def seeded_roles_def
        next_id_def)

lemma seed_roles_nonempty: "roles (seed_roles st) \<noteq> []"
  by (simp add: seed_roles_def seeded_roles_def)

lemma seed_admin_nonempty: "users (seed_admin (Some h) st) \<noteq> []"
  by (simp add: seed_admin_def Let_def)

lemma seed_admin_roles: "roles (seed_admin hash st) = roles st"
  by (simp add: seed_admin_def Let_def split: option.splits)

lemma seed_roles_idle: "roles st \<noteq> [] \<Longrightarrow> seed_roles st = st"
  by (simp add: seed_roles_def)

lemma seed_admin_idle: "users st \<noteq> [] \<Longrightarrow> seed_admin hash st = st"
  by (simp add: seed_admin_def)

lemma bootstrap_twice:
  "fst (bootstrap h2 (fst (bootstrap (Some h1) st))) = fst (bootstrap (Some h1) st)"
proof -
  let ?s = "seed_admin (Some h1) (seed_roles st)"
  have "roles ?s \<noteq> []" by (simp add: seed_admin_roles seed_roles_nonempty)
  then have "seed_roles ?s = ?s" by (rule seed_roles_idle)
  moreover have "seed_admin h2 ?s = ?s" by (rule seed_admin_idle) (rule seed_admin_nonempty)
  ultimately show ?thesis by (simp add: bootstrap_def)
qed

lemma ensureAdmin_fresh:
  "ensureAdmin no_failure h pg_fresh_store =
     (pg_fresh_store\<lparr>pg_roles := seeded_roles,
        pg_users := [\<lparr>user_id = 1, username = ''admin'', password = h, role_id = 1\<rparr>]\<rparr>, [])"
  by (simp add: ensureAdmin_def seed_transaction_def no_failure_def pg_fresh_store_def
        seeded_roles_def next_id_def)

lemma seed_transaction_done:
  assumes "seed_transaction fails h st = Some st'"
  shows "pg_roles st' \<noteq> [] \<and> filter (\<lambda>u. username u = ''admin'') (pg_users st') \<noteq> []"
  using assms
  by (auto simp: seed_transaction_def Let_def seeded_roles_def split: if_splits option.splits)

lemma seed_transaction_idle:
  assumes "pg_roles st \<noteq> []" and "filter (\<lambda>u. username u = ''admin'') (pg_users st) \<noteq> []"
  shows "seed_transaction fails h st = (if fails Begin \<or> fails CreateTables \<or> fails CountRoles
           \<or> fails SelectAdmin \<or> fails Commit then None else Some st)"
  using assms by (simp add: seed_transaction_def Let_def)

lemma ensureAdmin_after_done:
  assumes "pg_roles st \<noteq> []" and "filter (\<lambda>u. username u = ''admin'') (pg_users st) \<noteq> []"
  shows "fst (ensureAdmin fails h st) = st"
  using assms by (simp add: ensureAdmin_def seed_transaction_idle)

lemma ensureAdmin_twice:
  "fst (ensureAdmin no_failure h2 (fst (ensureAdmin no_failure h1 st)))
     = fst (ensureAdmin no_failure h1 st)"
proof (cases "seed_transaction no_failure h1 st")
  case None
  then have one: "fst (ensureAdmin no_failure h1 st) = st"
    by (simp add: ensureAdmin_def no_failure_def)
  have "seed_transaction no_failure h2 st = None"
    using None
    by (auto simp: seed_transaction_def no_failure_def Let_def split: if_splits option.splits)
  then have "fst (ensureAdmin no_failure h2 st) = st"
    by (simp add: ensureAdmin_def no_failure_def)
  with one show ?thesis by simp
next
  case (Some st')
  then have one: "fst (ensureAdmin no_failure h1 st) = st'"
    by (simp add: ensureAdmin_def no_failure_def)
  from Some have "fst (ensureAdmin no_failure h2 st') = st'"
    by (intro ensureAdmin_after_done) (simp_all add: seed_transaction_done)
  with one show ?thesis by simp
qed

lemma ensureAdmin_atomic:
  "(fst (ensureAdmin fails h st) = st \<and> snd (ensureAdmin fails h st) \<noteq> [])
   \<or> (snd (ensureAdmin fails h st) = [] \<and> pg_roles (fst (ensureAdmin fails h st)) \<noteq> []
       \<and> filter (\<lambda>u. username u = ''admin'') (pg_users (fst (ensureAdmin fails h st))) \<noteq> [])"
proof (cases "fails Connect")
  case True
  then show ?thesis by (simp add: ensureAdmin_def)
next
  case False
  show ?thesis
  proof (cases "seed_transaction fails h st")
    case None
    with False show ?thesis by (simp add: ensureAdmin_def)
  next
    case (Some st')
    with False have "ensureAdmin fails h st = (st', [])" by (simp add: ensureAdmin_def)
    with seed_transaction_done [OF Some] show ?thesis by simp
  qed
qed

lemma ensureAdmin_second_run:
  assumes "snd (ensureAdmin f1 h1 st) = []"
  shows "fst (ensureAdmin f2 h2 (fst (ensureAdmin f1 h1 st))) = fst (ensureAdmin f1 h1 st)"
proof -
  from assms ensureAdmin_atomic [of f1 h1 st]
  have "pg_roles (fst (ensureAdmin f1 h1 st)) \<noteq> []"
    and "filter (\<lambda>u. username u = ''admin'') (pg_users (fst (ensureAdmin f1 h1 st))) \<noteq> []"
    by auto
  then show ?thesis by (rule ensureAdmin_after_done)
qed

text \<open>
  Claim C4. Running the bootstrap a second time changes nothing. In \<open>server.js\<close>: for
  every store, after a run that hashed the password, a second run (whatever its hashing
  yields) leaves the store as the first run left it. In the PostgreSQL server: for every
  store, after a run in which no step failed, a second such run leaves the store as it
  was. From the fresh store, both servers end, after two runs, with exactly the roles
  admin, staff and volunteer and exactly one user, the admin of the first run.
\<close>

theorem bootstrap_idempotent:
  "fst (bootstrap h2 (fst (bootstrap (Some h1) st))) = fst (bootstrap (Some h1) st)
   \<and> fst (bootstrap h2 (fst (bootstrap (Some h1) fresh_store)))
       = fresh_store\<lparr>roles := [(1, ''admin''), (2, ''staff''), (3, ''volunteer'')],
           users := [\<lparr>user_id = 1, username = ''admin'', password = h1, role_id = 1\<rparr>]\<rparr>
   \<and> fst (ensureAdmin no_failure k2 (fst (ensureAdmin no_failure k1 pst)))
       = fst (ensureAdmin no_failure k1 pst)
   \<and> fst (ensureAdmin no_failure k2 (fst (ensureAdmin no_failure k1 pg_fresh_store)))
       = pg_fresh_store\<lparr>pg_roles := [(1, ''admin''), (2, ''staff''), (3, ''volunteer'')],
           pg_users := [\<lparr>user_id = 1, username = ''admin'', password = k1, role_id = 1\<rparr>]\<rparr>"
proof -
  have a: "fst (bootstrap h2 (fst (bootstrap (Some h1) st))) = fst (bootstrap (Some h1) st)"
    by (rule bootstrap_twice)
  have b: "fst (bootstrap h2 (fst (bootstrap (Some h1) fresh_store)))
       = fresh_store\<lparr>roles := [(1, ''admin''), (2, ''staff''), (3, ''volunteer'')],
           users := [\<lparr>user_id = 1, username = ''admin'', password = h1, role_id = 1\<rparr>]\<rparr>"
    by (simp add: bootstrap_twice) (simp add: bootstrap_fresh seeded_roles_def)
  have c: "fst (ensureAdmin no_failure k2 (fst (ensureAdmin no_failure k1 pst)))
       = fst (ensureAdmin no_failure k1 pst)"
    by (rule ensureAdmin_twice)
  have d: "fst (ensureAdmin no_failure k2 (fst (ensureAdmin no_failure k1 pg_fresh_store)))
       = pg_fresh_store\<lparr>pg_roles := [(1, ''admin''), (2, ''staff''), (3, ''volunteer'')],
           pg_users := [\<lparr>user_id = 1, username = ''admin'', password = k1, role_id = 1\<rparr>]\<rparr>"
    by (simp add: ensureAdmin_twice) (simp add: ensureAdmin_fresh seeded_roles_def)
  from a b c d show ?thesis by blast
qed

text \<open>
  Claim C5 says that the bootstrap is atomic: when a step fails, what it has written is
  rolled back and the failure is logged. The PostgreSQL server does this: after
  \<open>ensureAdmin\<close>, either the store is the one before the call and a line was logged, or
  nothing was logged and the store has roles and an admin (\<open>ensureAdmin_atomic\<close>, for
  every store and every set of failing steps). \<open>server.js\<close> has no transaction: on the
  fresh store, when the hashing of the password fails, the three roles stay in the store,
  there is no user, and nothing is logged. The same failure in the PostgreSQL server
  leaves the fresh store as it was and logs the error.
\<close>

theorem bootstrap_not_atomic:
  "bootstrap None fresh_store =
     (fresh_store\<lparr>roles := [(1, ''admin''), (2, ''staff''), (3, ''volunteer'')]\<rparr>, [])
   \<and> users (fst (bootstrap None fresh_store)) = []
   \<and> ensureAdmin (no_failure(Hash := True)) h pg_fresh_store
       = (pg_fresh_store, [''Error ensuring admin:''])"
  by (simp add: bootstrap_def seed_admin_def seed_roles_def fresh_store_def seeded_roles_def
        ensureAdmin_def seed_transaction_def no_failure_def pg_fresh_store_def)

end
